theory Spec2Isabelle
  imports Complex_Main
begin

section \<open>The workbench layout of src/vs/workbench/browser/layout.ts\<close>

text \<open>
  The class \<^verbatim>\<open>WorkbenchLayout\<close> lays out six parts (title bar, activity bar, side bar,
  panel, editor, status bar) inside a container and reacts to the two sashes.

  Numbers. A JavaScript number is modelled as a \<^typ>\<open>real\<close>: pixel arithmetic is
  exact, \<^verbatim>\<open>width / 5\<close>, \<^verbatim>\<open>height * 0.4\<close> and the division by the zoom factor are
  the mathematical operations. The reals have no NaN and no Infinity. The two places
  of \<^verbatim>\<open>layout\<close> where the code can produce one (a zoom factor of 0, and
  \<^verbatim>\<open>Math.min(undefined, _)\<close> on a never written \<^verbatim>\<open>panelHeightBeforeMaximized\<close>) are
  branches of the model that return \<open>Inl NotANumber\<close>; reading a property of
  \<^verbatim>\<open>null\<close> or \<^verbatim>\<open>undefined\<close> is \<open>Inl TypeError\<close>.

  State. The fields of the class, the two variables \<^verbatim>\<open>startX\<close> and \<^verbatim>\<open>startY\<close>
  captured by the sash listeners, and the state of the collaborators that the code
  reads or writes (part service, storage, editor service, viewlet service, client area,
  zoom factor, style sheet values, the parts' containers) form the record \<open>World\<close>;
  every method takes a world and returns the new one.
\<close>

subsection \<open>Constants (lines 23-29, 45-46)\<close>

definition DEFAULT_MIN_SIDEBAR_PART_WIDTH :: real where
  "DEFAULT_MIN_SIDEBAR_PART_WIDTH = 170"

definition DEFAULT_MIN_PANEL_PART_HEIGHT :: real where
  "DEFAULT_MIN_PANEL_PART_HEIGHT = 77"

definition DEFAULT_MIN_EDITOR_PART_HEIGHT :: real where
  "DEFAULT_MIN_EDITOR_PART_HEIGHT = 70"

definition DEFAULT_MIN_EDITOR_PART_WIDTH :: real where
  "DEFAULT_MIN_EDITOR_PART_WIDTH = 220"

definition DEFAULT_PANEL_HEIGHT_COEFFICIENT :: real where
  "DEFAULT_PANEL_HEIGHT_COEFFICIENT = 4 / 10"

definition HIDE_SIDEBAR_WIDTH_THRESHOLD :: real where
  "HIDE_SIDEBAR_WIDTH_THRESHOLD = 50"

definition HIDE_PANEL_HEIGHT_THRESHOLD :: real where
  "HIDE_PANEL_HEIGHT_THRESHOLD = 50"

definition sashXWidthSettingsKey :: string where
  "sashXWidthSettingsKey = ''workbench.sidebar.width''"

definition sashYHeightSettingsKey :: string where
  "sashYHeightSettingsKey = ''workbench.panel.height''"

subsection \<open>Data\<close>

datatype Position = LEFT | RIGHT

datatype Parts =
  TITLEBAR_PART | ACTIVITYBAR_PART | SIDEBAR_PART | PANEL_PART | EDITOR_PART | STATUSBAR_PART

datatype layout_error = TypeError | NotANumber

record Dimension =
  width :: real
  height :: real

text \<open>The interface \<^verbatim>\<open>ComputedStyles\<close> (lines 31-38), flattened.\<close>

record ComputedStyles =
  titlebar_height :: real
  activitybar_width :: real
  sidebar_minWidth :: real
  panel_minHeight :: real
  editor_minWidth :: real
  editor_minHeight :: real
  statusbar_height :: real

text \<open>\<^verbatim>\<open>ILayoutOptions\<close>; an absent \<^verbatim>\<open>options\<close> argument is both flags false.\<close>

record ILayoutOptions =
  forceStyleRecompute :: bool
  toggleMaximizedPanel :: bool

definition no_options :: ILayoutOptions where
  "no_options = \<lparr>forceStyleRecompute = False, toggleMaximizedPanel = False\<rparr>"

text \<open>\<^verbatim>\<open>ISashEvent\<close>: the pointer coordinates a sash reports.\<close>

record ISashEvent =
  e_startX :: real
  e_currentX :: real
  e_startY :: real
  e_currentY :: real

text \<open>
  What \<^verbatim>\<open>parseInt(style.getPropertyValue(_), 10)\<close> gives for each property read by
  \<^verbatim>\<open>computeStyle\<close>. The three minimums are \<open>None\<close> when \<^verbatim>\<open>parseInt\<close> gives NaN; the
  three fixed sizes, which the code uses with no fallback, are taken as resolvable.
\<close>

record Css =
  css_titlebar_height :: int
  css_activitybar_width :: int
  css_sidebar_min_width :: "int option"
  css_panel_min_height :: "int option"
  css_editor_min_width :: "int option"
  css_statusbar_height :: int

text \<open>
  Modelled from the spec: the part service (\<^verbatim>\<open>IPartService\<close>) is not in the source
  file. Section 6 of the specification gives it as \<^verbatim>\<open>isVisible(region)\<close>,
  \<^verbatim>\<open>getAnchor(sideRegion)\<close> and \<^verbatim>\<open>setVisible(region, bool)\<close>: a visibility flag
  per hideable part and the side bar position. The setters record the flag; a layout
  that the service may request itself after a change of visibility is a later event.
\<close>

record PartService =
  titleBarHidden :: bool
  sideBarHidden :: bool
  panelHidden :: bool
  statusBarHidden :: bool
  sideBarPosition :: Position

fun isVisible :: "Parts \<Rightarrow> PartService \<Rightarrow> bool" where
  "isVisible TITLEBAR_PART ps = (\<not> titleBarHidden ps)"
| "isVisible SIDEBAR_PART ps = (\<not> sideBarHidden ps)"
| "isVisible PANEL_PART ps = (\<not> panelHidden ps)"
| "isVisible STATUSBAR_PART ps = (\<not> statusBarHidden ps)"
| "isVisible ACTIVITYBAR_PART ps = True"
| "isVisible EDITOR_PART ps = True"

definition setSideBarHidden :: "bool \<Rightarrow> PartService \<Rightarrow> PartService" where
  "setSideBarHidden h ps = ps\<lparr>sideBarHidden := h\<rparr>"

definition setPanelHidden :: "bool \<Rightarrow> PartService \<Rightarrow> PartService" where
  "setPanelHidden h ps = ps\<lparr>panelHidden := h\<rparr>"

text \<open>
  Modelled from the spec: the storage service is not in the source file (section 6:
  \<^verbatim>\<open>setNumber(key, scope, value)\<close>). The store is the list of the writes made to it,
  the latest first, so that a write of an unchanged value is still seen; \<open>stored\<close>
  reads the latest value of a key.
\<close>

type_synonym Storage = "(string \<times> real) list"

definition store :: "string \<Rightarrow> real \<Rightarrow> Storage \<Rightarrow> Storage" where
  "store key v st = (key, v) # st"

definition stored :: "Storage \<Rightarrow> string \<Rightarrow> real option" where
  "stored st key = map_of st key"

text \<open>
  Modelled from the spec: a part's container (a \<^verbatim>\<open>Builder\<close>) is not in the source
  file; section 2 gives a region handle as "accepts a size", "accepts a position",
  "shows/hides". A \<open>Box\<close> holds the style values last given to it; an argument that
  is \<^verbatim>\<open>null\<close> or missing (\<open>None\<close>) leaves the value as it was.
\<close>

record Box =
  box_width :: "real option"
  box_height :: "real option"
  box_top :: "real option"
  box_right :: "real option"
  box_bottom :: "real option"
  box_left :: "real option"
  box_shown :: bool

definition keep :: "'a option \<Rightarrow> 'a option \<Rightarrow> 'a option" where
  "keep new old = (case new of None \<Rightarrow> old | Some v \<Rightarrow> Some v)"

definition size_box :: "real option \<Rightarrow> real option \<Rightarrow> Box \<Rightarrow> Box" where
  "size_box w h b = b\<lparr>box_width := keep w (box_width b), box_height := keep h (box_height b)\<rparr>"

definition position_box ::
  "real option \<Rightarrow> real option \<Rightarrow> real option \<Rightarrow> real option \<Rightarrow> Box \<Rightarrow> Box" where
  "position_box t r b l bx =
     bx\<lparr>box_top := keep t (box_top bx), box_right := keep r (box_right bx),
        box_bottom := keep b (box_bottom bx), box_left := keep l (box_left bx)\<rparr>"

definition hide_box :: "Box \<Rightarrow> Box" where
  "hide_box b = b\<lparr>box_shown := False\<rparr>"

definition show_box :: "Box \<Rightarrow> Box" where
  "show_box b = b\<lparr>box_shown := True\<rparr>"

record Dom =
  workbenchContainer :: Box
  scrollTop :: real
  scrollLeft :: real
  titlebar :: Box
  activitybar :: Box
  editor :: Box
  sidebar :: Box
  panel :: Box
  statusbar :: Box

text \<open>
  The fields of \<^verbatim>\<open>WorkbenchLayout\<close> (lines 58-73) and the listeners' \<^verbatim>\<open>startX\<close>,
  \<^verbatim>\<open>startY\<close> (lines 132-133). \<^verbatim>\<open>computedStyles\<close> is \<^verbatim>\<open>null\<close> after construction,
  \<^verbatim>\<open>initialComputedStyles\<close>, \<^verbatim>\<open>workbenchSize\<close> and \<^verbatim>\<open>panelHeightBeforeMaximized\<close>
  are \<^verbatim>\<open>undefined\<close> until first written: these are options. The other number
  fields are written before the code reads them.
\<close>

record WorkbenchLayout =
  computedStyles :: "ComputedStyles option"
  initialComputedStyles :: "ComputedStyles option"
  workbenchSize :: "Dimension option"
  startSidebarWidth :: real
  sidebarWidth :: real
  sidebarHeight :: real
  titlebarHeight :: real
  activitybarWidth :: real
  statusbarHeight :: real
  startPanelHeight :: real
  panelHeight :: real
  panelHeightBeforeMaximized :: "real option"
  panelWidth :: real
  layoutEditorGroupsVertically :: bool
  startX :: real
  startY :: real

text \<open>
  The world: the layout object and its collaborators. \<open>visibleEditors\<close> is
  \<^verbatim>\<open>editorService.getVisibleEditors().length\<close>; \<open>activeViewlet\<close> is \<open>None\<close> when
  there is no active viewlet and otherwise holds what its \<^verbatim>\<open>getOptimalWidth()\<close>
  returns (\<open>None\<close> for \<^verbatim>\<open>null\<close>); \<open>clientArea\<close> is \<^verbatim>\<open>parent.getClientArea()\<close>;
  \<open>zoomFactor\<close> is \<^verbatim>\<open>getZoomFactor()\<close>.
\<close>

record World =
  lay :: WorkbenchLayout
  partService :: PartService
  storageService :: Storage
  visibleEditors :: nat
  activeViewlet :: "real option option"
  clientArea :: Dimension
  zoomFactor :: real
  css :: Css
  dom :: Dom

subsection \<open>computeStyle (lines 287-322)\<close>

text \<open>\<^verbatim>\<open>parseInt(_) || d\<close>: the default replaces NaN and 0.\<close>

definition or_default :: "int option \<Rightarrow> real \<Rightarrow> real" where
  "or_default v d = (case v of None \<Rightarrow> d | Some n \<Rightarrow> if n = 0 then d else real_of_int n)"

definition computeStyle :: "World \<Rightarrow> World" where
  "computeStyle w =
    (let c = css w;
         cs = \<lparr>titlebar_height = real_of_int (css_titlebar_height c),
               activitybar_width = real_of_int (css_activitybar_width c),
               sidebar_minWidth = or_default (css_sidebar_min_width c) DEFAULT_MIN_SIDEBAR_PART_WIDTH,
               panel_minHeight = or_default (css_panel_min_height c) DEFAULT_MIN_PANEL_PART_HEIGHT,
               editor_minWidth = or_default (css_editor_min_width c) DEFAULT_MIN_EDITOR_PART_WIDTH,
               editor_minHeight = DEFAULT_MIN_EDITOR_PART_HEIGHT,
               statusbar_height = real_of_int (css_statusbar_height c)\<rparr>;
         l = (lay w)\<lparr>computedStyles := Some cs\<rparr>;
         l = (if initialComputedStyles l = None then l\<lparr>initialComputedStyles := Some cs\<rparr> else l)
     in w\<lparr>lay := l\<rparr>)"

subsection \<open>layout (lines 324-523)\<close>

definition getWorkbenchArea :: "World \<Rightarrow> Dimension" where
  "getWorkbenchArea w = clientArea w"

text \<open>\<^verbatim>\<open>Math.round\<close>: the nearest integer, a half rounded up.\<close>

definition Math_round :: "real \<Rightarrow> real" where
  "Math_round x = real_of_int \<lfloor>x + 1 / 2\<rfloor>"

text \<open>The local object \<^verbatim>\<open>editorSize\<close> (lines 384-389).\<close>

record EditorSize =
  es_width :: real
  es_height :: real
  remainderLeft :: real
  remainderRight :: real

text \<open>
  Lines 355-356: the title bar height is the initial style height divided by the zoom
  factor. A division by 0 is Infinity in the code and is outside the reals.
\<close>

definition layout_titlebarHeight :: "bool \<Rightarrow> World \<Rightarrow> layout_error + real" where
  "layout_titlebarHeight isTitlebarHidden w =
    (if isTitlebarHidden then Inr 0
     else case initialComputedStyles (lay w) of
            None \<Rightarrow> Inl TypeError
          | Some ics \<Rightarrow>
              if zoomFactor w = 0 then Inl NotANumber
              else Inr (titlebar_height ics / zoomFactor w))"

text \<open>
  Lines 375-379: the maximize toggle. The result is the new local \<^verbatim>\<open>panelHeight\<close>
  and the new \<^verbatim>\<open>panelHeightBeforeMaximized\<close>.
\<close>

definition layout_toggle ::
  "ILayoutOptions \<Rightarrow> ComputedStyles \<Rightarrow> real \<Rightarrow> real \<Rightarrow> real option \<Rightarrow>
   layout_error + (real \<times> real option)" where
  "layout_toggle options cs panelHeight' maxPanelHeight beforeMaximized =
    (if toggleMaximizedPanel options then
       (let heightToSwap = panelHeight' in
        if panelHeight' = maxPanelHeight then
          (case beforeMaximized of
             None \<Rightarrow> Inl NotANumber
           | Some b \<Rightarrow> Inr (max (panel_minHeight cs) (min b maxPanelHeight), Some heightToSwap))
        else Inr (maxPanelHeight, Some heightToSwap))
     else Inr (panelHeight', beforeMaximized))"

text \<open>
  Lines 444-522: the sizes and positions given to the containers, one container at a
  time. The sashes, the quick open widget, the parts' own layouts and the context view
  receive the same numbers and keep no state of this class; they are left out.
\<close>

definition apply_workbenchContainer :: "Dimension \<Rightarrow> Box \<Rightarrow> Box" where
  "apply_workbenchContainer wbSize b =
     size_box (Some (width wbSize)) (Some (height wbSize))
       (position_box (Some 0) (Some 0) (Some 0) (Some 0) b)"

definition apply_editor ::
  "bool \<Rightarrow> Position \<Rightarrow> real \<Rightarrow> real \<Rightarrow> Dimension \<Rightarrow> Dimension \<Rightarrow> Dimension \<Rightarrow>
   EditorSize \<Rightarrow> Box \<Rightarrow> Box" where
  "apply_editor isSidebarHidden sidebarPosition titlebarHeight' statusbarHeight' sidebarSize
      activityBarSize panelDimension editorSize b =
    (let b = size_box (Some (es_width editorSize)) (Some (es_height editorSize)) b;
         editorBottom = statusbarHeight' + height panelDimension
     in if isSidebarHidden then
          position_box (Some titlebarHeight') (Some (remainderRight editorSize))
            (Some editorBottom) (Some (remainderLeft editorSize)) b
        else if sidebarPosition = LEFT then
          position_box (Some titlebarHeight') (Some 0) (Some editorBottom)
            (Some (width sidebarSize + width activityBarSize)) b
        else
          position_box (Some titlebarHeight') (Some (width sidebarSize)) (Some editorBottom)
            (Some 0) b)"

definition apply_panel ::
  "bool \<Rightarrow> Position \<Rightarrow> real \<Rightarrow> real \<Rightarrow> Dimension \<Rightarrow> Dimension \<Rightarrow> Dimension \<Rightarrow>
   EditorSize \<Rightarrow> Box \<Rightarrow> Box" where
  "apply_panel isSidebarHidden sidebarPosition titlebarHeight' statusbarHeight' sidebarSize
      activityBarSize panelDimension editorSize b =
    (let b = size_box (Some (width panelDimension)) (Some (height panelDimension)) b
     in if isSidebarHidden then
          position_box (Some (es_height editorSize + titlebarHeight'))
            (Some (remainderRight editorSize)) (Some statusbarHeight')
            (Some (remainderLeft editorSize)) b
        else if sidebarPosition = LEFT then
          position_box (Some (es_height editorSize + titlebarHeight')) (Some 0)
            (Some statusbarHeight') (Some (width sidebarSize + width activityBarSize)) b
        else
          position_box (Some (es_height editorSize + titlebarHeight')) (Some (width sidebarSize))
            (Some statusbarHeight') (Some 0) b)"

definition apply_activitybar :: "Position \<Rightarrow> real \<Rightarrow> Dimension \<Rightarrow> Box \<Rightarrow> Box" where
  "apply_activitybar sidebarPosition titlebarHeight' activityBarSize b =
    (let b = size_box None (Some (height activityBarSize)) b
     in if sidebarPosition = LEFT then
          position_box (Some titlebarHeight') None (Some 0) (Some 0) (b\<lparr>box_right := None\<rparr>)
        else
          position_box (Some titlebarHeight') (Some 0) (Some 0) None (b\<lparr>box_left := None\<rparr>))"

definition apply_sidebar ::
  "Position \<Rightarrow> real \<Rightarrow> Dimension \<Rightarrow> Dimension \<Rightarrow> EditorSize \<Rightarrow> Box \<Rightarrow> Box" where
  "apply_sidebar sidebarPosition titlebarHeight' sidebarSize activityBarSize editorSize b =
    (let b = size_box (Some (width sidebarSize)) (Some (height sidebarSize)) b
     in if sidebarPosition = LEFT then
          position_box (Some titlebarHeight') (Some (es_width editorSize)) (Some 0)
            (Some (width activityBarSize)) b
        else
          position_box (Some titlebarHeight') None (Some 0) (Some (es_width editorSize)) b)"

definition apply_statusbar :: "bool \<Rightarrow> Dimension \<Rightarrow> real \<Rightarrow> Box \<Rightarrow> Box" where
  "apply_statusbar isStatusbarHidden wbSize statusbarHeight' b =
    (let b = position_box (Some (height wbSize - statusbarHeight')) None None None b
     in if isStatusbarHidden then hide_box b else show_box b)"

definition layout_apply ::
  "bool \<Rightarrow> bool \<Rightarrow> bool \<Rightarrow> Position \<Rightarrow> Dimension \<Rightarrow> real \<Rightarrow> real \<Rightarrow>
   Dimension \<Rightarrow> Dimension \<Rightarrow> Dimension \<Rightarrow> EditorSize \<Rightarrow> Dom \<Rightarrow> Dom" where
  "layout_apply isTitlebarHidden isStatusbarHidden isSidebarHidden sidebarPosition wbSize
      titlebarHeight' statusbarHeight' sidebarSize activityBarSize panelDimension editorSize d =
     d\<lparr>workbenchContainer := apply_workbenchContainer wbSize (workbenchContainer d),
       scrollTop := (if scrollTop d > 0 then 0 else scrollTop d),
       scrollLeft := (if scrollLeft d > 0 then 0 else scrollLeft d),
       titlebar := (if isTitlebarHidden then hide_box (titlebar d) else show_box (titlebar d)),
       editor := apply_editor isSidebarHidden sidebarPosition titlebarHeight' statusbarHeight'
                   sidebarSize activityBarSize panelDimension editorSize (editor d),
       panel := apply_panel isSidebarHidden sidebarPosition titlebarHeight' statusbarHeight'
                   sidebarSize activityBarSize panelDimension editorSize (panel d),
       activitybar := apply_activitybar sidebarPosition titlebarHeight' activityBarSize (activitybar d),
       sidebar := apply_sidebar sidebarPosition titlebarHeight' sidebarSize activityBarSize
                    editorSize (sidebar d),
       statusbar := apply_statusbar isStatusbarHidden wbSize statusbarHeight' (statusbar d)\<rparr>"

text \<open>
  Lines 325-334: the styles are read again when the caller forces it, and read for the
  first time when they are still \<^verbatim>\<open>null\<close>.
\<close>

definition layout_styles :: "ILayoutOptions \<Rightarrow> World \<Rightarrow> World" where
  "layout_styles options w0 =
    (let w = (if forceStyleRecompute options then computeStyle w0 else w0)
     in if computedStyles (lay w) = None then computeStyle w else w)"

text \<open>
  Lines 344-353: the side bar width. The default of a fifth of the container is written
  to the field at once.
\<close>

definition layout_sidebarWidth ::
  "bool \<Rightarrow> ComputedStyles \<Rightarrow> Dimension \<Rightarrow> WorkbenchLayout \<Rightarrow> real \<times> WorkbenchLayout" where
  "layout_sidebarWidth isSidebarHidden cs wbSize l =
    (if isSidebarHidden then (0, l)
     else if sidebarWidth l \<noteq> - 1 then (max (sidebar_minWidth cs) (sidebarWidth l), l)
     else (let sidebarWidth' = width wbSize / 5
           in (sidebarWidth', l\<lparr>sidebarWidth := sidebarWidth'\<rparr>)))"

text \<open>Lines 366-374: the panel height before the maximize toggle.\<close>

definition layout_panelHeight ::
  "bool \<Rightarrow> ComputedStyles \<Rightarrow> real \<Rightarrow> Dimension \<Rightarrow> WorkbenchLayout \<Rightarrow> real" where
  "layout_panelHeight isPanelHidden cs maxPanelHeight sidebarSize l =
    (if isPanelHidden then 0
     else if panelHeight l > 0
       then min maxPanelHeight (max (panel_minHeight cs) (panelHeight l))
     else height sidebarSize * DEFAULT_PANEL_HEIGHT_COEFFICIENT)"

text \<open>Lines 383-405: the editor size, and its remainders when the side bar is hidden.\<close>

definition layout_editorSize ::
  "bool \<Rightarrow> Position \<Rightarrow> Dimension \<Rightarrow> Dimension \<Rightarrow> Dimension \<Rightarrow> Dimension \<Rightarrow>
   WorkbenchLayout \<Rightarrow> EditorSize" where
  "layout_editorSize isSidebarHidden sidebarPosition wbSize sidebarSize activityBarSize
      panelDimension l =
    (let editorSize = \<lparr>es_width = width panelDimension,
                       es_height = height sidebarSize - height panelDimension,
                       remainderLeft = 0, remainderRight = 0\<rparr>
     in \<comment> \<open>Sidebar hidden\<close>
        if isSidebarHidden then
          (let editorSize = editorSize\<lparr>es_width :=
                 min (width wbSize - width activityBarSize) (width wbSize - activitybarWidth l)\<rparr>
           in if sidebarPosition = LEFT then
                (let editorSize = editorSize\<lparr>remainderLeft :=
                       Math_round ((width wbSize - es_width editorSize + width activityBarSize) / 2)\<rparr>
                 in editorSize\<lparr>remainderRight :=
                       width wbSize - es_width editorSize - remainderLeft editorSize\<rparr>)
              else
                (let editorSize = editorSize\<lparr>remainderRight :=
                       Math_round ((width wbSize - es_width editorSize + width activityBarSize) / 2)\<rparr>
                 in editorSize\<lparr>remainderLeft :=
                       width wbSize - es_width editorSize - remainderRight editorSize\<rparr>))
        else editorSize)"

text \<open>
  Lines 407-432: the editor's minimum, scaled by the number of visible editors along
  the axis on which the groups are laid out, and the two corrections made when the editor
  is smaller. The result is the corrected editor size, panel dimension and side bar size.
\<close>

definition layout_editorMinWidth :: "ComputedStyles \<Rightarrow> nat \<Rightarrow> bool \<Rightarrow> real" where
  "layout_editorMinWidth cs visibleEditorCount vertically =
    (if visibleEditorCount > 1 \<and> vertically
     then editor_minWidth cs * real visibleEditorCount else editor_minWidth cs)"

definition layout_editorMinHeight :: "ComputedStyles \<Rightarrow> nat \<Rightarrow> bool \<Rightarrow> real" where
  "layout_editorMinHeight cs visibleEditorCount vertically =
    (if visibleEditorCount > 1 \<and> \<not> vertically
     then editor_minHeight cs * real visibleEditorCount else editor_minHeight cs)"

definition layout_overflow ::
  "real \<Rightarrow> real \<Rightarrow> EditorSize \<Rightarrow> Dimension \<Rightarrow> Dimension \<Rightarrow>
   EditorSize \<times> Dimension \<times> Dimension" where
  "layout_overflow editorMinWidth editorMinHeight editorSize panelDimension sidebarSize =
    (let (editorSize, panelDimension, sidebarSize) =
           (if es_width editorSize < editorMinWidth then
              (let diff = editorMinWidth - es_width editorSize;
                   editorSize = editorSize\<lparr>es_width := editorMinWidth\<rparr>;
                   panelDimension = panelDimension\<lparr>width := editorMinWidth\<rparr>;
                   sidebarSize = sidebarSize\<lparr>width := width sidebarSize - diff\<rparr>;
                   sidebarSize = sidebarSize\<lparr>width :=
                                   max DEFAULT_MIN_SIDEBAR_PART_WIDTH (width sidebarSize)\<rparr>
               in (editorSize, panelDimension, sidebarSize))
            else (editorSize, panelDimension, sidebarSize))
     in if es_height editorSize < editorMinHeight then
          (let diff = editorMinHeight - es_height editorSize;
               editorSize = editorSize\<lparr>es_height := editorMinHeight\<rparr>;
               panelDimension = panelDimension\<lparr>height := height panelDimension - diff\<rparr>;
               panelDimension = panelDimension\<lparr>height :=
                                  max DEFAULT_MIN_PANEL_PART_HEIGHT (height panelDimension)\<rparr>
           in (editorSize, panelDimension, sidebarSize))
        else (editorSize, panelDimension, sidebarSize))"

text \<open>
  The method. The locals of the code keep their names, primed where a field or a
  constant of the model has the name. A local that the code assigns again is bound
  again.
\<close>

definition layout :: "ILayoutOptions \<Rightarrow> World \<Rightarrow> layout_error + World" where
  "layout options w0 =
    (let w = layout_styles options w0
     in case computedStyles (lay w) of
          None \<Rightarrow> Inl TypeError
        | Some cs \<Rightarrow>
    (let wbSize = getWorkbenchArea w;
         l = (lay w)\<lparr>workbenchSize := Some wbSize\<rparr>;
         isTitlebarHidden = (\<not> isVisible TITLEBAR_PART (partService w));
         isPanelHidden = (\<not> isVisible PANEL_PART (partService w));
         isStatusbarHidden = (\<not> isVisible STATUSBAR_PART (partService w));
         isSidebarHidden = (\<not> isVisible SIDEBAR_PART (partService w));
         sidebarPosition = sideBarPosition (partService w);
         \<comment> \<open>Sidebar\<close>
         (sidebarWidth', l) = layout_sidebarWidth isSidebarHidden cs wbSize l;
         statusbarHeight' = (if isStatusbarHidden then 0 else statusbar_height cs)
     in case layout_titlebarHeight isTitlebarHidden w of
          Inl err \<Rightarrow> Inl err
        | Inr titlebarHeight' \<Rightarrow>
    (let l = l\<lparr>statusbarHeight := statusbarHeight', titlebarHeight := titlebarHeight'\<rparr>;
         l = l\<lparr>sidebarHeight := height wbSize - statusbarHeight l - titlebarHeight l\<rparr>;
         sidebarSize = \<lparr>width = sidebarWidth', height = sidebarHeight l\<rparr>;
         \<comment> \<open>Activity Bar\<close>
         l = l\<lparr>activitybarWidth := activitybar_width cs\<rparr>;
         activityBarSize = \<lparr>width = activitybarWidth l, height = height sidebarSize\<rparr>;
         \<comment> \<open>Panel part\<close>
         maxPanelHeight = height sidebarSize - DEFAULT_MIN_EDITOR_PART_HEIGHT;
         panelHeight' = layout_panelHeight isPanelHidden cs maxPanelHeight sidebarSize l
     in case layout_toggle options cs panelHeight' maxPanelHeight (panelHeightBeforeMaximized l) of
          Inl err \<Rightarrow> Inl err
        | Inr (panelHeight', beforeMaximized) \<Rightarrow>
    (let l = l\<lparr>panelHeightBeforeMaximized := beforeMaximized\<rparr>;
         panelDimension =
           \<lparr>width = width wbSize - width sidebarSize - width activityBarSize, height = panelHeight'\<rparr>;
         l = l\<lparr>panelWidth := width panelDimension\<rparr>;
         \<comment> \<open>Editor\<close>
         editorSize = layout_editorSize isSidebarHidden sidebarPosition wbSize sidebarSize
                        activityBarSize panelDimension l;
         \<comment> \<open>Assert Sidebar and Editor Size to not overflow\<close>
         editorMinWidth =
           layout_editorMinWidth cs (visibleEditors w) (layoutEditorGroupsVertically l);
         editorMinHeight =
           layout_editorMinHeight cs (visibleEditors w) (layoutEditorGroupsVertically l);
         (editorSize, panelDimension, sidebarSize) =
           layout_overflow editorMinWidth editorMinHeight editorSize panelDimension sidebarSize;
         l = (if \<not> isSidebarHidden then l\<lparr>sidebarWidth := width sidebarSize\<rparr> else l);
         st = (if \<not> isSidebarHidden
               then store sashXWidthSettingsKey (sidebarWidth l) (storageService w)
               else storageService w);
         l = (if \<not> isPanelHidden then l\<lparr>panelHeight := height panelDimension\<rparr> else l);
         st = (if \<not> isPanelHidden then store sashYHeightSettingsKey (panelHeight l) st else st)
     in Inr (w\<lparr>lay := l, storageService := st,
               dom := layout_apply isTitlebarHidden isStatusbarHidden isSidebarHidden sidebarPosition
                        wbSize (titlebarHeight l) (statusbarHeight l) sidebarSize activityBarSize
                        panelDimension editorSize (dom w)\<rparr>)))))"

subsection \<open>The sash listeners (lines 131-244)\<close>

definition sashX_start :: "ISashEvent \<Rightarrow> World \<Rightarrow> World" where
  "sashX_start e w =
     w\<lparr>lay := (lay w)\<lparr>startSidebarWidth := sidebarWidth (lay w), startX := e_startX e\<rparr>\<rparr>"

definition sashY_start :: "ISashEvent \<Rightarrow> World \<Rightarrow> World" where
  "sashY_start e w =
     w\<lparr>lay := (lay w)\<lparr>startPanelHeight := panelHeight (lay w), startY := e_startY e\<rparr>\<rparr>"

text \<open>Line 149: the width that a change event proposes for the side bar.\<close>

definition newSashWidth :: "ISashEvent \<Rightarrow> World \<Rightarrow> real" where
  "newSashWidth e w =
     (if sideBarPosition (partService w) = LEFT
      then startSidebarWidth (lay w) + e_currentX e - startX (lay w)
      else startSidebarWidth (lay w) - e_currentX e + startX (lay w))"

definition sashX_change :: "ISashEvent \<Rightarrow> World \<Rightarrow> layout_error + World" where
  "sashX_change e w =
    (let l = lay w;
         sidebarPosition = sideBarPosition (partService w);
         isSidebarHidden = sideBarHidden (partService w);
         newSashWidth = newSashWidth e w
     in case computedStyles l of
          None \<Rightarrow> Inl TypeError
        | Some cs \<Rightarrow>
            \<comment> \<open>Sidebar visible\<close>
            if \<not> isSidebarHidden then
              \<comment> \<open>Automatically hide side bar when a certain threshold is met\<close>
              if newSashWidth + HIDE_SIDEBAR_WIDTH_THRESHOLD < sidebar_minWidth cs then
                (let dragCompensation = DEFAULT_MIN_SIDEBAR_PART_WIDTH - HIDE_SIDEBAR_WIDTH_THRESHOLD;
                     ps = setSideBarHidden True (partService w)
                 in if sidebarPosition = LEFT then
                      Inr (w\<lparr>partService := ps,
                              lay := l\<lparr>startX := max (activitybarWidth l) (e_currentX e - dragCompensation),
                                       sidebarWidth := startSidebarWidth l\<rparr>\<rparr>)
                    else
                      (case workbenchSize l of
                         None \<Rightarrow> Inl TypeError
                       | Some wbSize \<Rightarrow>
                           Inr (w\<lparr>partService := ps,
                                   lay := l\<lparr>startX := min (e_currentX e + dragCompensation)
                                                        (width wbSize - activitybarWidth l),
                                            sidebarWidth := startSidebarWidth l\<rparr>\<rparr>)))
              \<comment> \<open>Otherwise size the sidebar accordingly\<close>
              else
                (let l = l\<lparr>sidebarWidth := max (sidebar_minWidth cs) newSashWidth\<rparr>;
                     doLayout = (newSashWidth \<ge> sidebar_minWidth cs)
                 in if doLayout then layout no_options (w\<lparr>lay := l\<rparr>) else Inr (w\<lparr>lay := l\<rparr>))
            \<comment> \<open>Sidebar hidden\<close>
            else if (sidebarPosition = LEFT \<and> e_currentX e - startX l \<ge> sidebar_minWidth cs) \<or>
                    (sidebarPosition = RIGHT \<and> startX l - e_currentX e \<ge> sidebar_minWidth cs) then
              Inr (w\<lparr>lay := l\<lparr>startSidebarWidth :=
                                 sidebar_minWidth cs -
                                   (if sidebarPosition = LEFT then e_currentX e - startX l
                                    else startX l - e_currentX e),
                               sidebarWidth := sidebar_minWidth cs\<rparr>,
                      partService := setSideBarHidden False (partService w)\<rparr>)
            else Inr w)"

text \<open>
  A drag delivers its change events one after the other, each to the world the
  previous one left (section 5 of the specification); an error ends the run.
\<close>

fun sashX_changes :: "ISashEvent list \<Rightarrow> World \<Rightarrow> layout_error + World" where
  "sashX_changes [] w = Inr w"
| "sashX_changes (e # es) w =
     (case sashX_change e w of Inl err \<Rightarrow> Inl err | Inr w' \<Rightarrow> sashX_changes es w')"

definition sashY_change :: "ISashEvent \<Rightarrow> World \<Rightarrow> layout_error + World" where
  "sashY_change e w =
    (let l = lay w;
         isPanelHidden = panelHidden (partService w);
         newSashHeight = startPanelHeight l - (e_currentY e - startY l)
     in case computedStyles l of
          None \<Rightarrow> Inl TypeError
        | Some cs \<Rightarrow>
            \<comment> \<open>Panel visible\<close>
            if \<not> isPanelHidden then
              \<comment> \<open>Automatically hide panel when a certain threshold is met\<close>
              if newSashHeight + HIDE_PANEL_HEIGHT_THRESHOLD < panel_minHeight cs then
                (let dragCompensation = DEFAULT_MIN_PANEL_PART_HEIGHT - HIDE_PANEL_HEIGHT_THRESHOLD
                 in Inr (w\<lparr>partService := setPanelHidden True (partService w),
                            lay := l\<lparr>startY := min (sidebarHeight l - statusbarHeight l - titlebarHeight l)
                                                   (e_currentY e + dragCompensation),
                                     panelHeight := startPanelHeight l\<rparr>\<rparr>))
              \<comment> \<open>Otherwise size the panel accordingly\<close>
              else
                (let l = l\<lparr>panelHeight := max (panel_minHeight cs) newSashHeight\<rparr>;
                     doLayout = (newSashHeight \<ge> panel_minHeight cs)
                 in if doLayout then layout no_options (w\<lparr>lay := l\<rparr>) else Inr (w\<lparr>lay := l\<rparr>))
            \<comment> \<open>Panel hidden\<close>
            else if startY l - e_currentY e \<ge> panel_minHeight cs then
              Inr (w\<lparr>lay := l\<lparr>startPanelHeight := 0, panelHeight := panel_minHeight cs\<rparr>,
                      partService := setPanelHidden False (partService w)\<rparr>)
            else Inr w)"

definition sashX_end :: "World \<Rightarrow> World" where
  "sashX_end w =
     w\<lparr>storageService := store sashXWidthSettingsKey (sidebarWidth (lay w)) (storageService w)\<rparr>"

definition sashY_end :: "World \<Rightarrow> World" where
  "sashY_end w =
     w\<lparr>storageService := store sashYHeightSettingsKey (panelHeight (lay w)) (storageService w)\<rparr>"

definition sashY_reset :: "World \<Rightarrow> layout_error + World" where
  "sashY_reset w =
    (let l = (lay w)\<lparr>panelHeight := sidebarHeight (lay w) * DEFAULT_PANEL_HEIGHT_COEFFICIENT\<rparr>;
         st = store sashYHeightSettingsKey (panelHeight l) (storageService w);
         ps = setPanelHidden False (partService w)
     in layout no_options (w\<lparr>lay := l, storageService := st, partService := ps\<rparr>))"

text \<open>
  \<^verbatim>\<open>activeViewlet && activeViewlet.getOptimalWidth()\<close> is falsy when there is no
  viewlet, and \<^verbatim>\<open>optimalWidth || 0\<close> turns every falsy value into 0.
\<close>

definition sashX_reset :: "World \<Rightarrow> layout_error + World" where
  "sashX_reset w =
    (let optimalWidth = (case activeViewlet w of None \<Rightarrow> None | Some ow \<Rightarrow> ow);
         l = (lay w)\<lparr>sidebarWidth :=
                max DEFAULT_MIN_SIDEBAR_PART_WIDTH
                   (case optimalWidth of None \<Rightarrow> 0 | Some v \<Rightarrow> if v = 0 then 0 else v)\<rparr>;
         st = store sashXWidthSettingsKey (sidebarWidth l) (storageService w);
         ps = setSideBarHidden False (partService w)
     in layout no_options (w\<lparr>lay := l, storageService := st, partService := ps\<rparr>))"

subsection \<open>Example worlds\<close>

text \<open>
  A workbench of 1200 by 800 pixels with every part visible, the side bar on the left,
  one editor, the styles already computed with their defaults, committed sizes of 300
  for the side bar and 200 for the panel, and an empty store.
\<close>

definition example_styles :: ComputedStyles where
  "example_styles =
     \<lparr>titlebar_height = 22, activitybar_width = 50, sidebar_minWidth = 170,
      panel_minHeight = 77, editor_minWidth = 220, editor_minHeight = 70,
      statusbar_height = 22\<rparr>"

definition example_box :: Box where
  "example_box =
     \<lparr>box_width = None, box_height = None, box_top = None, box_right = None,
      box_bottom = None, box_left = None, box_shown = True\<rparr>"

definition example_lay :: WorkbenchLayout where
  "example_lay =
     \<lparr>computedStyles = Some example_styles, initialComputedStyles = Some example_styles,
      workbenchSize = Some \<lparr>width = 1200, height = 800\<rparr>, startSidebarWidth = 0,
      sidebarWidth = 300, sidebarHeight = 0,
      titlebarHeight = 0, activitybarWidth = 0, statusbarHeight = 0, startPanelHeight = 0,
      panelHeight = 200, panelHeightBeforeMaximized = None, panelWidth = 0,
      layoutEditorGroupsVertically = True, startX = 0, startY = 0\<rparr>"

definition example_world :: World where
  "example_world =
     \<lparr>lay = example_lay,
      partService = \<lparr>titleBarHidden = False, sideBarHidden = False, panelHidden = False,
                      statusBarHidden = False, sideBarPosition = LEFT\<rparr>,
      storageService = [],
      visibleEditors = 1,
      activeViewlet = None,
      clientArea = \<lparr>width = 1200, height = 800\<rparr>,
      zoomFactor = 1,
      css = \<lparr>css_titlebar_height = 22, css_activitybar_width = 50, css_sidebar_min_width = None,
              css_panel_min_height = None, css_editor_min_width = None, css_statusbar_height = 22\<rparr>,
      dom = \<lparr>workbenchContainer = example_box, scrollTop = 0, scrollLeft = 0,
              titlebar = example_box, activitybar = example_box, editor = example_box,
              sidebar = example_box, panel = example_box, statusbar = example_box\<rparr>\<rparr>"

text \<open>
  The same workbench in a container only 144 high, 100 between title bar and status bar,
  with no panel height committed yet.
\<close>

definition small_world :: World where
  "small_world =
     example_world\<lparr>lay := example_lay\<lparr>panelHeight := 0\<rparr>,
                    clientArea := \<lparr>width = 1200, height = 144\<rparr>\<rparr>"

text \<open>
  A workbench never laid out before, 800 by 600: no side bar width is committed.
\<close>

definition fresh_world :: World where
  "fresh_world =
     example_world\<lparr>lay := example_lay\<lparr>sidebarWidth := - 1\<rparr>,
                    clientArea := \<lparr>width = 800, height = 600\<rparr>\<rparr>"

text \<open>
  The small container once more, the panel laid out at the 30 that the editor's minimum
  leaves it and a remembered height of 30; and the large one with two editors stacked
  above each other.
\<close>

definition small_maximized_world :: World where
  "small_maximized_world =
     example_world\<lparr>lay := example_lay\<lparr>panelHeight := 30, panelHeightBeforeMaximized := Some 30\<rparr>,
                    clientArea := \<lparr>width = 1200, height = 144\<rparr>\<rparr>"

definition stacked_world :: World where
  "stacked_world =
     example_world\<lparr>lay := example_lay\<lparr>layoutEditorGroupsVertically := False\<rparr>,
                    visibleEditors := 2\<rparr>"

definition toggle_options :: ILayoutOptions where
  "toggle_options = \<lparr>forceStyleRecompute = False, toggleMaximizedPanel = True\<rparr>"

text \<open>Reading a value off the world a call returns, and calling \<open>layout\<close> on it once more.\<close>

definition after :: "(World \<Rightarrow> 'a) \<Rightarrow> layout_error + World \<Rightarrow> 'a option" where
  "after f r = (case r of Inl err \<Rightarrow> None | Inr w \<Rightarrow> Some (f w))"

definition then_layout :: "ILayoutOptions \<Rightarrow> layout_error + World \<Rightarrow> layout_error + World" where
  "then_layout options r = (case r of Inl err \<Rightarrow> Inl err | Inr w \<Rightarrow> layout options w)"

text \<open>
  Three more variations: a container 380 wide whose style gives the side bar a minimum
  width of 100, with 150 committed; a container 800 wide with 600 committed and two
  editors side by side; and the large workbench with a style minimum width of 200.
\<close>

definition narrow_world :: World where
  "narrow_world =
     example_world\<lparr>lay := example_lay\<lparr>computedStyles := Some (example_styles\<lparr>sidebar_minWidth := 100\<rparr>),
                                          sidebarWidth := 150\<rparr>,
                    clientArea := \<lparr>width = 380, height = 800\<rparr>\<rparr>"

definition overflow_world :: World where
  "overflow_world =
     example_world\<lparr>lay := example_lay\<lparr>sidebarWidth := 600\<rparr>, visibleEditors := 2,
                    clientArea := \<lparr>width = 800, height = 600\<rparr>\<rparr>"

definition wide_style_world :: World where
  "wide_style_world =
     example_world\<lparr>lay := example_lay\<lparr>computedStyles := Some (example_styles\<lparr>sidebar_minWidth := 200\<rparr>)\<rparr>\<rparr>"

text \<open>
  A drag on the world a call returns: the start event, then the change events. An event
  of the examples is given by the pointer's coordinate.
\<close>

definition then_sashX_drag ::
  "ISashEvent \<Rightarrow> ISashEvent list \<Rightarrow> layout_error + World \<Rightarrow> layout_error + World" where
  "then_sashX_drag e0 es r =
     (case r of Inl err \<Rightarrow> Inl err | Inr w \<Rightarrow> sashX_changes es (sashX_start e0 w))"

definition pointer :: "real \<Rightarrow> ISashEvent" where
  "pointer x = \<lparr>e_startX = 350, e_currentX = x, e_startY = 0, e_currentY = 0\<rparr>"

section \<open>Properties\<close>

lemmas constants_defs =
  DEFAULT_MIN_SIDEBAR_PART_WIDTH_def DEFAULT_MIN_PANEL_PART_HEIGHT_def
  DEFAULT_MIN_EDITOR_PART_HEIGHT_def DEFAULT_MIN_EDITOR_PART_WIDTH_def
  DEFAULT_PANEL_HEIGHT_COEFFICIENT_def HIDE_SIDEBAR_WIDTH_THRESHOLD_def
  HIDE_PANEL_HEIGHT_THRESHOLD_def

lemmas example_defs = example_world_def example_lay_def example_styles_def example_box_def

subsection \<open>What layout leaves alone, and its result\<close>

lemma layout_styles_frame:
  "partService (layout_styles options w) = partService w"
  "storageService (layout_styles options w) = storageService w"
  "visibleEditors (layout_styles options w) = visibleEditors w"
  "activeViewlet (layout_styles options w) = activeViewlet w"
  "clientArea (layout_styles options w) = clientArea w"
  "zoomFactor (layout_styles options w) = zoomFactor w"
  "css (layout_styles options w) = css w"
  "dom (layout_styles options w) = dom w"
  by (simp_all add: layout_styles_def computeStyle_def Let_def)

lemma layout_styles_lay_frame:
  "workbenchSize (lay (layout_styles options w)) = workbenchSize (lay w)"
  "startSidebarWidth (lay (layout_styles options w)) = startSidebarWidth (lay w)"
  "sidebarWidth (lay (layout_styles options w)) = sidebarWidth (lay w)"
  "sidebarHeight (lay (layout_styles options w)) = sidebarHeight (lay w)"
  "titlebarHeight (lay (layout_styles options w)) = titlebarHeight (lay w)"
  "activitybarWidth (lay (layout_styles options w)) = activitybarWidth (lay w)"
  "statusbarHeight (lay (layout_styles options w)) = statusbarHeight (lay w)"
  "startPanelHeight (lay (layout_styles options w)) = startPanelHeight (lay w)"
  "panelHeight (lay (layout_styles options w)) = panelHeight (lay w)"
  "panelHeightBeforeMaximized (lay (layout_styles options w)) = panelHeightBeforeMaximized (lay w)"
  "panelWidth (lay (layout_styles options w)) = panelWidth (lay w)"
  "layoutEditorGroupsVertically (lay (layout_styles options w)) = layoutEditorGroupsVertically (lay w)"
  "startX (lay (layout_styles options w)) = startX (lay w)"
  "startY (lay (layout_styles options w)) = startY (lay w)"
  by (simp_all add: layout_styles_def computeStyle_def Let_def)

lemma layout_styles_set: "\<exists>cs. computedStyles (lay (layout_styles options w)) = Some cs"
  by (auto simp add: layout_styles_def computeStyle_def Let_def)

lemma layout_styles_idle:
  "\<not> forceStyleRecompute options \<Longrightarrow> computedStyles (lay w) = Some cs \<Longrightarrow> layout_styles options w = w"
  by (simp add: layout_styles_def)

text \<open>
  The world that \<open>layout\<close> returns, given the results of its steps: the side bar width
  \<open>sw\<close>, the status and title bar heights \<open>sh\<close> and \<open>th\<close>, the height \<open>H\<close> between
  them, the panel height \<open>ph\<close> after the toggle, and the sizes \<open>es\<close>, \<open>pd\<close>, \<open>ss\<close>
  after the overflow correction.
\<close>

lemma layout_eq:
  assumes cs: "computedStyles (lay (layout_styles options w)) = Some cs"
      and th: "layout_titlebarHeight (titleBarHidden (partService w)) (layout_styles options w) = Inr th"
      and sw: "layout_sidebarWidth (sideBarHidden (partService w)) cs (clientArea w)
                 ((lay (layout_styles options w))\<lparr>workbenchSize := Some (clientArea w)\<rparr>) = (sw, l1)"
      and sh: "sh = (if statusBarHidden (partService w) then 0 else statusbar_height cs)"
      and H: "H = height (clientArea w) - sh - th"
      and l2: "l2 = l1\<lparr>statusbarHeight := sh, titlebarHeight := th, sidebarHeight := H,
                       activitybarWidth := activitybar_width cs\<rparr>"
      and tg: "layout_toggle options cs
                 (layout_panelHeight (panelHidden (partService w)) cs
                    (H - DEFAULT_MIN_EDITOR_PART_HEIGHT) \<lparr>width = sw, height = H\<rparr> l2)
                 (H - DEFAULT_MIN_EDITOR_PART_HEIGHT) (panelHeightBeforeMaximized (lay w)) = Inr (ph, b)"
      and l3: "l3 = l2\<lparr>panelHeightBeforeMaximized := b,
                       panelWidth := width (clientArea w) - sw - activitybar_width cs\<rparr>"
      and ov: "layout_overflow
                 (layout_editorMinWidth cs (visibleEditors w) (layoutEditorGroupsVertically (lay w)))
                 (layout_editorMinHeight cs (visibleEditors w) (layoutEditorGroupsVertically (lay w)))
                 (layout_editorSize (sideBarHidden (partService w)) (sideBarPosition (partService w))
                    (clientArea w) \<lparr>width = sw, height = H\<rparr>
                    \<lparr>width = activitybar_width cs, height = H\<rparr>
                    \<lparr>width = width (clientArea w) - sw - activitybar_width cs, height = ph\<rparr> l3)
                 \<lparr>width = width (clientArea w) - sw - activitybar_width cs, height = ph\<rparr>
                 \<lparr>width = sw, height = H\<rparr> = (es, pd, ss)"
      and l4: "l4 = (if sideBarHidden (partService w) then l3 else l3\<lparr>sidebarWidth := width ss\<rparr>)"
      and l5: "l5 = (if panelHidden (partService w) then l4 else l4\<lparr>panelHeight := height pd\<rparr>)"
      and st1: "st1 = (if sideBarHidden (partService w) then storageService w
                       else store sashXWidthSettingsKey (width ss) (storageService w))"
      and st2: "st2 = (if panelHidden (partService w) then st1
                       else store sashYHeightSettingsKey (height pd) st1)"
  shows "layout options w =
           Inr ((layout_styles options w)\<lparr>lay := l5, storageService := st2,
                  dom := layout_apply (titleBarHidden (partService w)) (statusBarHidden (partService w))
                           (sideBarHidden (partService w)) (sideBarPosition (partService w))
                           (clientArea w) th sh ss \<lparr>width = activitybar_width cs, height = H\<rparr>
                           pd es (dom w)\<rparr>)"
proof -
  have fr: "layoutEditorGroupsVertically l1 = layoutEditorGroupsVertically (lay w)"
           "panelHeightBeforeMaximized l1 = panelHeightBeforeMaximized (lay w)"
    using sw by (auto simp: layout_sidebarWidth_def layout_styles_lay_frame Let_def split: if_splits)
  show ?thesis
    using cs th sw tg ov fr
    unfolding sh H l2 l3 l4 l5 st1 st2
    by (simp add: layout_def Let_def getWorkbenchArea_def layout_styles_frame layout_styles_lay_frame)
qed

text \<open>The overflow correction, field by field.\<close>

lemma layout_overflow_eq:
  "layout_overflow emw emh es pd ss =
     (es\<lparr>es_width := (if es_width es < emw then emw else es_width es),
         es_height := (if es_height es < emh then emh else es_height es)\<rparr>,
      pd\<lparr>width := (if es_width es < emw then emw else width pd),
         height := (if es_height es < emh
                    then max DEFAULT_MIN_PANEL_PART_HEIGHT (height pd - (emh - es_height es))
                    else height pd)\<rparr>,
      ss\<lparr>width := (if es_width es < emw
                   then max DEFAULT_MIN_SIDEBAR_PART_WIDTH (width ss - (emw - es_width es))
                   else width ss)\<rparr>)"
  by (simp add: layout_overflow_def Let_def)

lemma layout_editorSize_remainders:
  "activitybarWidth l = activitybarWidth l' \<Longrightarrow>
   (layout_editorSize hid pos wb ss ab pd l)\<lparr>es_width := x, es_height := y\<rparr> =
   (layout_editorSize hid pos wb ab ab ab l')\<lparr>es_width := x, es_height := y\<rparr>"
  by (simp add: layout_editorSize_def Let_def)

lemma layout_editorSize_fields:
  "es_width (layout_editorSize hid pos wb ss ab pd l) =
     (if hid then min (width wb - width ab) (width wb - activitybarWidth l) else width pd)"
  "es_height (layout_editorSize hid pos wb ss ab pd l) = height ss - height pd"
  by (simp_all add: layout_editorSize_def Let_def)

text \<open>The sizes the containers hold after \<open>layout_apply\<close>, and applying twice.\<close>

lemmas box_defs = size_box_def position_box_def keep_def hide_box_def show_box_def

lemma apply_editor_size:
  "box_width (apply_editor hid pos th sh ss ab pd es b) = Some (es_width es)"
  "box_height (apply_editor hid pos th sh ss ab pd es b) = Some (es_height es)"
  by (simp_all add: apply_editor_def Let_def box_defs)

lemma apply_panel_size:
  "box_width (apply_panel hid pos th sh ss ab pd es b) = Some (width pd)"
  "box_height (apply_panel hid pos th sh ss ab pd es b) = Some (height pd)"
  by (simp_all add: apply_panel_def Let_def box_defs)

lemma apply_sidebar_size:
  "box_width (apply_sidebar pos th ss ab es b) = Some (width ss)"
  "box_height (apply_sidebar pos th ss ab es b) = Some (height ss)"
  by (simp_all add: apply_sidebar_def Let_def box_defs)

lemma apply_idem:
  "apply_workbenchContainer wb (apply_workbenchContainer wb b) = apply_workbenchContainer wb b"
  "apply_editor hid pos th sh ss ab pd es (apply_editor hid pos th sh ss ab pd es b) =
     apply_editor hid pos th sh ss ab pd es b"
  "apply_panel hid pos th sh ss ab pd es (apply_panel hid pos th sh ss ab pd es b) =
     apply_panel hid pos th sh ss ab pd es b"
  "apply_activitybar pos th ab (apply_activitybar pos th ab b) = apply_activitybar pos th ab b"
  "apply_sidebar pos th ss ab es (apply_sidebar pos th ss ab es b) = apply_sidebar pos th ss ab es b"
  "apply_statusbar sb_hid wb sh (apply_statusbar sb_hid wb sh b) = apply_statusbar sb_hid wb sh b"
  by (simp_all add: apply_workbenchContainer_def apply_editor_def apply_panel_def
        apply_activitybar_def apply_sidebar_def apply_statusbar_def Let_def box_defs)

lemma layout_apply_sizes:
  "box_width (sidebar (layout_apply th_hid sb_hid hid pos wb th sh ss ab pd es d)) = Some (width ss)"
  "box_height (sidebar (layout_apply th_hid sb_hid hid pos wb th sh ss ab pd es d)) = Some (height ss)"
  "box_width (editor (layout_apply th_hid sb_hid hid pos wb th sh ss ab pd es d)) = Some (es_width es)"
  "box_height (editor (layout_apply th_hid sb_hid hid pos wb th sh ss ab pd es d)) = Some (es_height es)"
  "box_width (panel (layout_apply th_hid sb_hid hid pos wb th sh ss ab pd es d)) = Some (width pd)"
  "box_height (panel (layout_apply th_hid sb_hid hid pos wb th sh ss ab pd es d)) = Some (height pd)"
  by (simp_all add: layout_apply_def apply_editor_size apply_panel_size apply_sidebar_size)

lemma layout_apply_idem:
  "layout_apply th_hid sb_hid hid pos wb th sh ss ab pd es
     (layout_apply th_hid sb_hid hid pos wb th sh ss ab pd es d) =
   layout_apply th_hid sb_hid hid pos wb th sh ss ab pd es d"
  by (simp add: layout_apply_def apply_idem box_defs)

text \<open>
  Every value that \<open>layout\<close> leaves behind, from the style values \<open>cs\<close>, the title bar
  height \<open>th\<close> and the result \<open>(ph, b)\<close> of the maximize toggle: \<open>sw\<close> and \<open>p0\<close> are
  the side bar width and panel height first computed, \<open>ew\<close> and \<open>eh\<close> the editor size
  before the overflow correction, \<open>fsw\<close> and \<open>fph\<close> the side bar width and panel height
  after it.
\<close>

lemma layout_run:
  assumes cs: "computedStyles (lay (layout_styles options w)) = Some cs"
      and th: "layout_titlebarHeight (titleBarHidden (partService w)) (layout_styles options w) = Inr th"
      and sh: "sh = (if statusBarHidden (partService w) then 0 else statusbar_height cs)"
      and H: "H = height (clientArea w) - sh - th"
      and sw: "sw = (if sideBarHidden (partService w) then 0
                     else if sidebarWidth (lay w) \<noteq> - 1 then max (sidebar_minWidth cs) (sidebarWidth (lay w))
                     else width (clientArea w) / 5)"
      and p0: "p0 = (if panelHidden (partService w) then 0
                     else if panelHeight (lay w) > 0
                       then min (H - DEFAULT_MIN_EDITOR_PART_HEIGHT) (max (panel_minHeight cs) (panelHeight (lay w)))
                     else H * DEFAULT_PANEL_HEIGHT_COEFFICIENT)"
      and tg: "layout_toggle options cs p0 (H - DEFAULT_MIN_EDITOR_PART_HEIGHT)
                 (panelHeightBeforeMaximized (lay w)) = Inr (ph, b)"
      and emw: "emw = layout_editorMinWidth cs (visibleEditors w) (layoutEditorGroupsVertically (lay w))"
      and emh: "emh = layout_editorMinHeight cs (visibleEditors w) (layoutEditorGroupsVertically (lay w))"
      and ew: "ew = (if sideBarHidden (partService w) then width (clientArea w) - activitybar_width cs
                     else width (clientArea w) - sw - activitybar_width cs)"
      and eh: "eh = H - ph"
      and fsw: "fsw = (if ew < emw then max DEFAULT_MIN_SIDEBAR_PART_WIDTH (sw - (emw - ew)) else sw)"
      and fph: "fph = (if eh < emh then max DEFAULT_MIN_PANEL_PART_HEIGHT (ph - (emh - eh)) else ph)"
  obtains w' where "layout options w = Inr w'"
    and "box_width (sidebar (dom w')) = Some fsw"
      "box_height (sidebar (dom w')) = Some H"
      "box_width (editor (dom w')) = Some (if ew < emw then emw else ew)"
      "box_height (editor (dom w')) = Some (if eh < emh then emh else eh)"
      "box_width (panel (dom w')) = Some (if ew < emw then emw else width (clientArea w) - sw - activitybar_width cs)"
      "box_height (panel (dom w')) = Some fph"
    and "titlebarHeight (lay w') = th"
      "statusbarHeight (lay w') = sh"
      "activitybarWidth (lay w') = activitybar_width cs"
      "sidebarHeight (lay w') = H"
      "panelWidth (lay w') = width (clientArea w) - sw - activitybar_width cs"
      "panelHeightBeforeMaximized (lay w') = b"
    and "sidebarWidth (lay w') = (if sideBarHidden (partService w) then sidebarWidth (lay w) else fsw)"
      "panelHeight (lay w') = (if panelHidden (partService w) then panelHeight (lay w) else fph)"
    and "storageService w' = (if panelHidden (partService w) then [] else [(sashYHeightSettingsKey, fph)]) @ (if sideBarHidden (partService w) then [] else [(sashXWidthSettingsKey, fsw)]) @ storageService w"
    and "computedStyles (lay w') = Some cs"
      "initialComputedStyles (lay w') = initialComputedStyles (lay (layout_styles options w))"
      "workbenchSize (lay w') = Some (clientArea w)"
      "layoutEditorGroupsVertically (lay w') = layoutEditorGroupsVertically (lay w)"
      "startSidebarWidth (lay w') = startSidebarWidth (lay w)"
      "startPanelHeight (lay w') = startPanelHeight (lay w)"
      "startX (lay w') = startX (lay w)"
      "startY (lay w') = startY (lay w)"
    and "partService w' = partService w"
      "visibleEditors w' = visibleEditors w"
      "activeViewlet w' = activeViewlet w"
      "clientArea w' = clientArea w"
      "zoomFactor w' = zoomFactor w"
      "css w' = css w"
    and "dom w' =
           layout_apply (titleBarHidden (partService w)) (statusBarHidden (partService w))
             (sideBarHidden (partService w)) (sideBarPosition (partService w)) (clientArea w) th sh
             \<lparr>width = fsw, height = H\<rparr> \<lparr>width = activitybar_width cs, height = H\<rparr>
             \<lparr>width = (if ew < emw then emw else width (clientArea w) - sw - activitybar_width cs),
                height = fph\<rparr>
             ((layout_editorSize (sideBarHidden (partService w)) (sideBarPosition (partService w))
                 (clientArea w) \<lparr>width = activitybar_width cs, height = H\<rparr>
                 \<lparr>width = activitybar_width cs, height = H\<rparr>
                 \<lparr>width = activitybar_width cs, height = H\<rparr> (lay w'))
                \<lparr>es_width := (if ew < emw then emw else ew),
                   es_height := (if eh < emh then emh else eh)\<rparr>)
             (dom w)"
proof -
  define L where "L = (lay (layout_styles options w))\<lparr>workbenchSize := Some (clientArea w)\<rparr>"
  define l1 where "l1 = (if \<not> sideBarHidden (partService w) \<and> sidebarWidth (lay w) = - 1
                         then L\<lparr>sidebarWidth := sw\<rparr> else L)"
  have s1: "layout_sidebarWidth (sideBarHidden (partService w)) cs (clientArea w)
              ((lay (layout_styles options w))\<lparr>workbenchSize := Some (clientArea w)\<rparr>) = (sw, l1)"
    by (simp add: layout_sidebarWidth_def Let_def sw l1_def L_def layout_styles_lay_frame)
  define l2 where "l2 = l1\<lparr>statusbarHeight := sh, titlebarHeight := th, sidebarHeight := H,
                       activitybarWidth := activitybar_width cs\<rparr>"
  have pl2: "panelHeight l2 = panelHeight (lay w)"
    by (simp add: l2_def l1_def L_def layout_styles_lay_frame)
  have p0': "layout_panelHeight (panelHidden (partService w)) cs
               (H - DEFAULT_MIN_EDITOR_PART_HEIGHT) \<lparr>width = sw, height = H\<rparr> l2 = p0"
    by (simp add: layout_panelHeight_def pl2 p0)
  define l3 where "l3 = l2\<lparr>panelHeightBeforeMaximized := b,
                       panelWidth := width (clientArea w) - sw - activitybar_width cs\<rparr>"
  have al3: "activitybarWidth l3 = activitybar_width cs"
    by (simp add: l3_def l2_def)
  define es0 where "es0 = layout_editorSize (sideBarHidden (partService w)) (sideBarPosition (partService w))
                    (clientArea w) \<lparr>width = sw, height = H\<rparr>
                    \<lparr>width = activitybar_width cs, height = H\<rparr>
                    \<lparr>width = width (clientArea w) - sw - activitybar_width cs, height = ph\<rparr> l3"
  have ew': "es_width es0 = ew"
    by (simp add: es0_def layout_editorSize_fields al3 ew)
  have eh': "es_height es0 = eh"
    by (simp add: es0_def layout_editorSize_fields eh)
  define es where "es = es0\<lparr>es_width := (if ew < emw then emw else ew),
                             es_height := (if eh < emh then emh else eh)\<rparr>"
  define pd where "pd = \<lparr>width = (if ew < emw then emw else width (clientArea w) - sw - activitybar_width cs),
                          height = fph\<rparr>"
  define ss where "ss = \<lparr>width = fsw, height = H\<rparr>"
  have ov: "layout_overflow
                 (layout_editorMinWidth cs (visibleEditors w) (layoutEditorGroupsVertically (lay w)))
                 (layout_editorMinHeight cs (visibleEditors w) (layoutEditorGroupsVertically (lay w)))
                 (layout_editorSize (sideBarHidden (partService w)) (sideBarPosition (partService w))
                    (clientArea w) \<lparr>width = sw, height = H\<rparr>
                    \<lparr>width = activitybar_width cs, height = H\<rparr>
                    \<lparr>width = width (clientArea w) - sw - activitybar_width cs, height = ph\<rparr> l3)
                 \<lparr>width = width (clientArea w) - sw - activitybar_width cs, height = ph\<rparr>
                 \<lparr>width = sw, height = H\<rparr> = (es, pd, ss)"
    unfolding layout_overflow_eq es0_def [symmetric] emw [symmetric] emh [symmetric] ew' eh'
    by (simp add: es_def pd_def ss_def fsw fph)
  define l4 where "l4 = (if sideBarHidden (partService w) then l3 else l3\<lparr>sidebarWidth := width ss\<rparr>)"
  define l5 where "l5 = (if panelHidden (partService w) then l4 else l4\<lparr>panelHeight := height pd\<rparr>)"
  define d' where "d' = layout_apply (titleBarHidden (partService w)) (statusBarHidden (partService w))
                           (sideBarHidden (partService w)) (sideBarPosition (partService w))
                           (clientArea w) th sh ss \<lparr>width = activitybar_width cs, height = H\<rparr>
                           pd es (dom w)"
  define st2 where "st2 = (if panelHidden (partService w) then [] else [(sashYHeightSettingsKey, fph)]) @
             (if sideBarHidden (partService w) then [] else [(sashXWidthSettingsKey, fsw)]) @
             storageService w"
  define w' where "w' = (layout_styles options w)\<lparr>lay := l5, storageService := st2, dom := d'\<rparr>"
  have st: "(if panelHidden (partService w)
             then (if sideBarHidden (partService w) then storageService w
                   else store sashXWidthSettingsKey (width ss) (storageService w))
             else store sashYHeightSettingsKey (height pd)
                    (if sideBarHidden (partService w) then storageService w
                     else store sashXWidthSettingsKey (width ss) (storageService w))) = st2"
    by (simp add: st2_def store_def ss_def pd_def)
  have eq: "layout options w = Inr w'"
    unfolding w'_def st [symmetric] d'_def l5_def
    by (rule layout_eq [OF cs th s1 sh H l2_def tg [folded p0'] l3_def ov l4_def refl refl refl])
  have lf: "computedStyles l3 = Some cs"
     "initialComputedStyles l3 = initialComputedStyles (lay (layout_styles options w))"
     "workbenchSize l3 = Some (clientArea w)"
     "layoutEditorGroupsVertically l3 = layoutEditorGroupsVertically (lay w)"
     "startSidebarWidth l3 = startSidebarWidth (lay w)"
     "startPanelHeight l3 = startPanelHeight (lay w)"
     "startX l3 = startX (lay w)" "startY l3 = startY (lay w)"
     "titlebarHeight l3 = th" "statusbarHeight l3 = sh" "sidebarHeight l3 = H"
     "panelWidth l3 = width (clientArea w) - sw - activitybar_width cs"
     "panelHeightBeforeMaximized l3 = b"
     "panelHeight l3 = panelHeight (lay w)"
     "sideBarHidden (partService w) \<Longrightarrow> sidebarWidth l3 = sidebarWidth (lay w)"
    using cs by (simp_all add: l3_def l2_def l1_def L_def layout_styles_lay_frame)
  have l5f: "computedStyles l5 = computedStyles l3"
     "initialComputedStyles l5 = initialComputedStyles l3"
     "workbenchSize l5 = workbenchSize l3"
     "layoutEditorGroupsVertically l5 = layoutEditorGroupsVertically l3"
     "startSidebarWidth l5 = startSidebarWidth l3"
     "startPanelHeight l5 = startPanelHeight l3"
     "startX l5 = startX l3" "startY l5 = startY l3"
     "titlebarHeight l5 = titlebarHeight l3" "statusbarHeight l5 = statusbarHeight l3"
     "sidebarHeight l5 = sidebarHeight l3" "activitybarWidth l5 = activitybarWidth l3"
     "panelWidth l5 = panelWidth l3"
     "panelHeightBeforeMaximized l5 = panelHeightBeforeMaximized l3"
     "sidebarWidth l5 = (if sideBarHidden (partService w) then sidebarWidth l3 else fsw)"
     "panelHeight l5 = (if panelHidden (partService w) then panelHeight l3 else fph)"
    by (simp_all add: l5_def l4_def ss_def pd_def)
  have wl: "lay w' = l5" "dom w' = d'" "storageService w' = st2"
    by (simp_all add: w'_def)
  have wf: "partService w' = partService w" "visibleEditors w' = visibleEditors w"
      "activeViewlet w' = activeViewlet w" "clientArea w' = clientArea w"
      "zoomFactor w' = zoomFactor w" "css w' = css w"
    by (simp_all add: w'_def layout_styles_frame)
  have bx: "box_width (sidebar d') = Some fsw" "box_height (sidebar d') = Some H"
      "box_width (editor d') = Some (if ew < emw then emw else ew)"
      "box_height (editor d') = Some (if eh < emh then emh else eh)"
      "box_width (panel d') = Some (if ew < emw then emw else width (clientArea w) - sw - activitybar_width cs)"
      "box_height (panel d') = Some fph"
    by (simp_all add: d'_def layout_apply_sizes ss_def pd_def es_def)
  have canon: "es =
      (layout_editorSize (sideBarHidden (partService w)) (sideBarPosition (partService w))
         (clientArea w) \<lparr>width = activitybar_width cs, height = H\<rparr>
         \<lparr>width = activitybar_width cs, height = H\<rparr>
         \<lparr>width = activitybar_width cs, height = H\<rparr> l5)
        \<lparr>es_width := (if ew < emw then emw else ew),
           es_height := (if eh < emh then emh else eh)\<rparr>"
    unfolding es_def es0_def
    by (rule layout_editorSize_remainders) (simp add: l5f)
  have dm: "d' =
           layout_apply (titleBarHidden (partService w)) (statusBarHidden (partService w))
             (sideBarHidden (partService w)) (sideBarPosition (partService w)) (clientArea w) th sh
             \<lparr>width = fsw, height = H\<rparr> \<lparr>width = activitybar_width cs, height = H\<rparr>
             \<lparr>width = (if ew < emw then emw else width (clientArea w) - sw - activitybar_width cs),
                height = fph\<rparr>
             ((layout_editorSize (sideBarHidden (partService w)) (sideBarPosition (partService w))
                 (clientArea w) \<lparr>width = activitybar_width cs, height = H\<rparr>
                 \<lparr>width = activitybar_width cs, height = H\<rparr>
                 \<lparr>width = activitybar_width cs, height = H\<rparr> l5)
                \<lparr>es_width := (if ew < emw then emw else ew),
                   es_height := (if eh < emh then emh else eh)\<rparr>)
             (dom w)"
    unfolding d'_def canon [symmetric] by (simp add: ss_def pd_def)
  show ?thesis
  proof (rule that [of w'])
    show "dom w' =
           layout_apply (titleBarHidden (partService w)) (statusBarHidden (partService w))
             (sideBarHidden (partService w)) (sideBarPosition (partService w)) (clientArea w) th sh
             \<lparr>width = fsw, height = H\<rparr> \<lparr>width = activitybar_width cs, height = H\<rparr>
             \<lparr>width = (if ew < emw then emw else width (clientArea w) - sw - activitybar_width cs),
                height = fph\<rparr>
             ((layout_editorSize (sideBarHidden (partService w)) (sideBarPosition (partService w))
                 (clientArea w) \<lparr>width = activitybar_width cs, height = H\<rparr>
                 \<lparr>width = activitybar_width cs, height = H\<rparr>
                 \<lparr>width = activitybar_width cs, height = H\<rparr> (lay w'))
                \<lparr>es_width := (if ew < emw then emw else ew),
                   es_height := (if eh < emh then emh else eh)\<rparr>)
             (dom w)"
      unfolding wl by (rule dm)
  qed (simp_all add: eq wl wf bx l5f lf al3 st2_def)
qed

lemma layout_toggle_off:
  "\<not> toggleMaximizedPanel options \<Longrightarrow> layout_toggle options cs p m b = Inr (p, b)"
  by (simp add: layout_toggle_def)

lemma layout_titlebarHeight_cong:
  "initialComputedStyles (lay v) = initialComputedStyles (lay w) \<Longrightarrow> zoomFactor v = zoomFactor w \<Longrightarrow>
   layout_titlebarHeight h v = layout_titlebarHeight h w"
  by (simp add: layout_titlebarHeight_def split: option.splits)

text \<open>What a layout with no options keeps.\<close>

lemma layout_keeps:
  assumes cs: "computedStyles (lay w) = Some cs"
      and th: "layout_titlebarHeight (titleBarHidden (partService w)) w = Inr th"
  obtains w' where "layout no_options w = Inr w'"
    and "computedStyles (lay w') = Some cs"
    and "layout_titlebarHeight (titleBarHidden (partService w')) w' = Inr th"
    and "partService w' = partService w"
    and "workbenchSize (lay w') = Some (clientArea w)"
    and "startSidebarWidth (lay w') = startSidebarWidth (lay w)"
    and "startX (lay w') = startX (lay w)"
    and "startPanelHeight (lay w') = startPanelHeight (lay w)"
    and "startY (lay w') = startY (lay w)"
proof -
  have nf: "\<not> forceStyleRecompute no_options" "\<not> toggleMaximizedPanel no_options"
    by (simp_all add: no_options_def)
  have ls: "layout_styles no_options w = w"
    by (rule layout_styles_idle [OF nf(1) cs])
  note run = layout_run [where options = no_options and w = w, unfolded ls,
      OF cs th refl refl refl refl layout_toggle_off [OF nf(2)] refl refl refl refl refl refl]
  from run obtain w' where r: "layout no_options w = Inr w'"
    "computedStyles (lay w') = Some cs"
    "initialComputedStyles (lay w') = initialComputedStyles (lay w)"
    "zoomFactor w' = zoomFactor w"
    "partService w' = partService w"
    "workbenchSize (lay w') = Some (clientArea w)"
    "startSidebarWidth (lay w') = startSidebarWidth (lay w)"
    "startX (lay w') = startX (lay w)"
    "startPanelHeight (lay w') = startPanelHeight (lay w)"
    "startY (lay w') = startY (lay w)"
    by blast
  have "layout_titlebarHeight (titleBarHidden (partService w')) w' = Inr th"
    using th r(3,4,5) layout_titlebarHeight_cong [of w' w] by simp
  with r show ?thesis
    by (intro that [of w']) simp_all
qed

lemma layout_toggle_total:
  "toggleMaximizedPanel options \<longrightarrow> b \<noteq> None \<Longrightarrow> \<exists>ph b'. layout_toggle options cs p m b = Inr (ph, b')"
  by (auto simp: layout_toggle_def Let_def)

text \<open>The definitions that evaluate \<open>layout\<close> on a given world.\<close>

lemmas run_defs =
  layout_def layout_styles_def layout_titlebarHeight_def layout_sidebarWidth_def
  layout_panelHeight_def layout_toggle_def layout_editorSize_def layout_editorMinWidth_def
  layout_editorMinHeight_def layout_overflow_def layout_apply_def apply_workbenchContainer_def
  apply_editor_def apply_panel_def apply_activitybar_def apply_sidebar_def apply_statusbar_def
  getWorkbenchArea_def store_def Let_def box_defs constants_defs

subsection \<open>Dragging the side bar sash\<close>

text \<open>A change event that neither hides nor finds the side bar hidden.\<close>

lemma sashX_change_resize:
  assumes cs: "computedStyles (lay w) = Some cs"
      and th: "layout_titlebarHeight (titleBarHidden (partService w)) w = Inr th"
      and vis: "\<not> sideBarHidden (partService w)"
      and wb: "workbenchSize (lay w) \<noteq> None"
      and nh: "\<not> newSashWidth e w + HIDE_SIDEBAR_WIDTH_THRESHOLD < sidebar_minWidth cs"
  obtains w' where "sashX_change e w = Inr w'"
    and "computedStyles (lay w') = Some cs"
    and "layout_titlebarHeight (titleBarHidden (partService w')) w' = Inr th"
    and "partService w' = partService w"
    and "workbenchSize (lay w') \<noteq> None"
    and "startSidebarWidth (lay w') = startSidebarWidth (lay w)"
    and "startX (lay w') = startX (lay w)"
proof (cases "newSashWidth e w \<ge> sidebar_minWidth cs")
  case False
  define v where "v = w\<lparr>lay := (lay w)\<lparr>sidebarWidth := max (sidebar_minWidth cs) (newSashWidth e w)\<rparr>\<rparr>"
  have sc: "sashX_change e w = Inr v"
    using False cs vis nh by (simp add: sashX_change_def Let_def v_def)
  have vth: "layout_titlebarHeight (titleBarHidden (partService v)) v = Inr th"
    using th layout_titlebarHeight_cong [of v w] by (simp add: v_def)
  show ?thesis
    using cs wb sc vth by (intro that [of v]) (simp_all add: v_def)
next
  case True
  define v where "v = w\<lparr>lay := (lay w)\<lparr>sidebarWidth := max (sidebar_minWidth cs) (newSashWidth e w)\<rparr>\<rparr>"
  have sc: "sashX_change e w = layout no_options v"
    using cs vis nh True by (simp add: sashX_change_def Let_def v_def)
  have vcs: "computedStyles (lay v) = Some cs"
    using cs by (simp add: v_def)
  have vth: "layout_titlebarHeight (titleBarHidden (partService v)) v = Inr th"
    using th layout_titlebarHeight_cong [of v w] by (simp add: v_def)
  from layout_keeps [OF vcs vth] obtain w' where r: "layout no_options v = Inr w'"
    "computedStyles (lay w') = Some cs"
    "layout_titlebarHeight (titleBarHidden (partService w')) w' = Inr th"
    "partService w' = partService v"
    "workbenchSize (lay w') = Some (clientArea v)"
    "startSidebarWidth (lay w') = startSidebarWidth (lay v)"
    "startX (lay w') = startX (lay v)"
    by blast
  show ?thesis
    using r sc by (intro that [of w']) (simp_all add: v_def)
qed

lemma sashX_changes_resize:
  assumes cs: "computedStyles (lay w) = Some cs"
      and th: "layout_titlebarHeight (titleBarHidden (partService w)) w = Inr th"
      and vis: "\<not> sideBarHidden (partService w)"
      and wb: "workbenchSize (lay w) \<noteq> None"
      and nh: "\<forall>e \<in> set es. \<not> newSashWidth e w + HIDE_SIDEBAR_WIDTH_THRESHOLD < sidebar_minWidth cs"
  shows "\<exists>w'. sashX_changes es w = Inr w' \<and> computedStyles (lay w') = Some cs \<and>
           partService w' = partService w \<and> workbenchSize (lay w') \<noteq> None \<and>
           startSidebarWidth (lay w') = startSidebarWidth (lay w) \<and>
           startX (lay w') = startX (lay w)"
  using assms
proof (induction es arbitrary: w)
  case Nil
  then show ?case by simp
next
  case (Cons e es)
  have nh1: "\<not> newSashWidth e w + HIDE_SIDEBAR_WIDTH_THRESHOLD < sidebar_minWidth cs"
    using Cons.prems(5) by simp
  from sashX_change_resize [OF Cons.prems(1-4) nh1] obtain v where v: "sashX_change e w = Inr v"
    "computedStyles (lay v) = Some cs"
    "layout_titlebarHeight (titleBarHidden (partService v)) v = Inr th"
    "partService v = partService w"
    "workbenchSize (lay v) \<noteq> None"
    "startSidebarWidth (lay v) = startSidebarWidth (lay w)"
    "startX (lay v) = startX (lay w)"
    by blast
  have same: "newSashWidth e' v = newSashWidth e' w" for e'
    by (simp add: newSashWidth_def v)
  have "\<exists>w'. sashX_changes es v = Inr w' \<and> computedStyles (lay w') = Some cs \<and>
           partService w' = partService v \<and> workbenchSize (lay w') \<noteq> None \<and>
           startSidebarWidth (lay w') = startSidebarWidth (lay v) \<and>
           startX (lay w') = startX (lay v)"
    using Cons.prems(3,5) v by (intro Cons.IH) (simp_all add: same)
  then show ?case
    using v by auto
qed

text \<open>The change event that crosses the hide threshold.\<close>

lemma sashX_change_hide:
  assumes cs: "computedStyles (lay w) = Some cs"
      and vis: "\<not> sideBarHidden (partService w)"
      and wb: "workbenchSize (lay w) \<noteq> None"
      and hide: "newSashWidth e w + HIDE_SIDEBAR_WIDTH_THRESHOLD < sidebar_minWidth cs"
  shows "\<exists>w'. sashX_change e w = Inr w' \<and> sideBarHidden (partService w') \<and>
           sidebarWidth (lay w') = startSidebarWidth (lay w)"
  using assms
  by (cases "sideBarPosition (partService w)")
     (auto simp add: sashX_change_def Let_def setSideBarHidden_def)

subsection \<open>The editor overflow correction\<close>

text \<open>
  Claim C4. In a container 800 wide, with the side bar visible at a width of 600, two
  visible editors laid out side by side and a minimum editor width of 220, \<open>layout\<close>
  gives the editor the scaled minimum 440 and shrinks the side bar to what is left beside
  the activity bar, \<open>360 - activitybar_width\<close>, but never below the default minimum 170;
  the new width is below 600 and becomes the committed width.
\<close>

theorem layout_editor_overflow_scenario:
  assumes cs: "computedStyles (lay (layout_styles options w)) = Some cs"
      and th: "layout_titlebarHeight (titleBarHidden (partService w)) (layout_styles options w) = Inr th"
      and nt: "\<not> toggleMaximizedPanel options"
      and W: "width (clientArea w) = 800"
      and vis: "\<not> sideBarHidden (partService w)"
      and side: "sidebarWidth (lay w) = 600"
      and two: "visibleEditors w = 2"
      and vert: "layoutEditorGroupsVertically (lay w)"
      and emin: "editor_minWidth cs = 220"
      and rail: "0 \<le> activitybar_width cs"
  shows "\<exists>w'. layout options w = Inr w' \<and>
           box_width (editor (dom w')) = Some 440 \<and>
           box_width (sidebar (dom w')) = Some (max DEFAULT_MIN_SIDEBAR_PART_WIDTH (360 - activitybar_width cs)) \<and>
           sidebarWidth (lay w') = max DEFAULT_MIN_SIDEBAR_PART_WIDTH (360 - activitybar_width cs) \<and>
           max DEFAULT_MIN_SIDEBAR_PART_WIDTH (360 - activitybar_width cs) < 600 \<and>
           DEFAULT_MIN_SIDEBAR_PART_WIDTH = 170"
proof -
  define sh where "sh = (if statusBarHidden (partService w) then 0 else statusbar_height cs)"
  define H where "H = height (clientArea w) - sh - th"
  define sw where "sw = (if sideBarHidden (partService w) then 0
                     else if sidebarWidth (lay w) \<noteq> - 1 then max (sidebar_minWidth cs) (sidebarWidth (lay w))
                     else width (clientArea w) / 5)"
  define p0 where "p0 = (if panelHidden (partService w) then 0
                     else if panelHeight (lay w) > 0
                       then min (H - DEFAULT_MIN_EDITOR_PART_HEIGHT) (max (panel_minHeight cs) (panelHeight (lay w)))
                     else H * DEFAULT_PANEL_HEIGHT_COEFFICIENT)"
  define emw where "emw = layout_editorMinWidth cs (visibleEditors w) (layoutEditorGroupsVertically (lay w))"
  define emh where "emh = layout_editorMinHeight cs (visibleEditors w) (layoutEditorGroupsVertically (lay w))"
  define ew where "ew = (if sideBarHidden (partService w) then width (clientArea w) - activitybar_width cs
                     else width (clientArea w) - sw - activitybar_width cs)"
  define eh where "eh = H - p0"
  define fsw where "fsw = (if ew < emw then max DEFAULT_MIN_SIDEBAR_PART_WIDTH (sw - (emw - ew)) else sw)"
  define fph where "fph = (if eh < emh then max DEFAULT_MIN_PANEL_PART_HEIGHT (p0 - (emh - eh)) else p0)"
  obtain w' where r: "layout options w = Inr w'"
      "box_width (editor (dom w')) = Some (if ew < emw then emw else ew)"
      "box_width (sidebar (dom w')) = Some fsw"
      "sidebarWidth (lay w') = (if sideBarHidden (partService w) then sidebarWidth (lay w) else fsw)"
    using layout_run [OF cs th sh_def H_def sw_def p0_def layout_toggle_off [OF nt] emw_def emh_def
            ew_def eh_def fsw_def fph_def]
    by blast
  have sw: "sw = max (sidebar_minWidth cs) 600"
    by (simp add: sw_def vis side)
  have emw: "emw = 440"
    by (simp add: emw_def layout_editorMinWidth_def two vert emin)
  have ew: "ew = 800 - sw - activitybar_width cs"
    by (simp add: ew_def vis W)
  have ov: "ew < emw"
    using rail by (simp add: ew emw sw)
  have fsw: "fsw = max DEFAULT_MIN_SIDEBAR_PART_WIDTH (360 - activitybar_width cs)"
    unfolding fsw_def if_P [OF ov] by (simp add: emw ew algebra_simps)
  show ?thesis
    using r rail ov by (simp add: emw fsw vis DEFAULT_MIN_SIDEBAR_PART_WIDTH_def)
qed

theorem layout_editor_overflow_scenario_witness:
  "\<exists>w'. layout no_options
           (example_world\<lparr>lay := example_lay\<lparr>sidebarWidth := 600\<rparr>, visibleEditors := 2,
                           clientArea := \<lparr>width = 800, height = 600\<rparr>\<rparr>) = Inr w' \<and>
        box_width (editor (dom w')) = Some 440 \<and>
        box_width (sidebar (dom w')) = Some 310 \<and>
        sidebarWidth (lay w') = 310"
  using layout_editor_overflow_scenario
          [of no_options "example_world\<lparr>lay := example_lay\<lparr>sidebarWidth := 600\<rparr>, visibleEditors := 2,
                           clientArea := \<lparr>width = 800, height = 600\<rparr>\<rparr>" example_styles 22]
  by (simp add: example_defs no_options_def layout_styles_def layout_titlebarHeight_def
        DEFAULT_MIN_SIDEBAR_PART_WIDTH_def)

subsection \<open>Hiding the side bar by a drag\<close>

text \<open>
  The first change event of a drag that crosses the hide threshold, after any number of
  events that only resized the side bar, hides it and sets the committed width back to the
  width it had when the drag started.
\<close>

lemma sashX_first_hide_restores_drag_start:
  assumes cs: "computedStyles (lay w) = Some cs"
      and th: "layout_titlebarHeight (titleBarHidden (partService w)) w = Inr th"
      and vis: "\<not> sideBarHidden (partService w)"
      and wb: "workbenchSize (lay w) \<noteq> None"
      and mid: "\<forall>e \<in> set es. \<not> newSashWidth e (sashX_start e0 w) + HIDE_SIDEBAR_WIDTH_THRESHOLD < sidebar_minWidth cs"
      and last: "newSashWidth e (sashX_start e0 w) + HIDE_SIDEBAR_WIDTH_THRESHOLD < sidebar_minWidth cs"
  shows "\<exists>w1 w2. sashX_changes es (sashX_start e0 w) = Inr w1 \<and> sashX_change e w1 = Inr w2 \<and>
           sideBarHidden (partService w2) \<and> sidebarWidth (lay w2) = sidebarWidth (lay w)"
proof -
  define v where "v = sashX_start e0 w"
  have v: "computedStyles (lay v) = Some cs"
      "layout_titlebarHeight (titleBarHidden (partService v)) v = Inr th"
      "\<not> sideBarHidden (partService v)" "workbenchSize (lay v) \<noteq> None"
      "startSidebarWidth (lay v) = sidebarWidth (lay w)"
    using cs th vis wb layout_titlebarHeight_cong [of v w]
    by (simp_all add: v_def sashX_start_def)
  from sashX_changes_resize [OF v(1-4) mid [folded v_def]]
  obtain w1 where w1: "sashX_changes es v = Inr w1" "computedStyles (lay w1) = Some cs"
      "partService w1 = partService v" "workbenchSize (lay w1) \<noteq> None"
      "startSidebarWidth (lay w1) = startSidebarWidth (lay v)" "startX (lay w1) = startX (lay v)"
    by blast
  have "newSashWidth e w1 = newSashWidth e v"
    by (simp add: newSashWidth_def w1)
  with last have hide: "newSashWidth e w1 + HIDE_SIDEBAR_WIDTH_THRESHOLD < sidebar_minWidth cs"
    by (simp add: v_def)
  have "\<not> sideBarHidden (partService w1)"
    using v(3) w1(3) by simp
  from sashX_change_hide [OF w1(2) this w1(4) hide]
  obtain w2 where "sashX_change e w1 = Inr w2" "sideBarHidden (partService w2)"
      "sidebarWidth (lay w2) = startSidebarWidth (lay w1)"
    by blast
  then show ?thesis
    using w1 v(5) by (auto simp: v_def)
qed


text \<open>
  Claim C10. A change event that crosses the hide threshold is to set the committed width
  back to the width the drag started from (line 159: "when restoring sidebar, restore to
  the sidebar width we started from"). It does so only the first time in a drag. The
  workbench is laid out with a side bar of 300 and the drag starts at 350. The pointer
  goes to 100: the side bar is hidden, 300 is committed. It goes back to 221: the side bar
  is shown again, and line 173 overwrites the snapshot \<open>startSidebarWidth\<close> with
  \<open>170 - 171 = -1\<close>. It goes to 60: the side bar is hidden again, and line 159 commits
  the overwritten snapshot, -1, the sentinel of an unset width, not the 300 of the drag's
  start.
\<close>

theorem sashX_second_hide_loses_drag_start:
  "after (sidebarWidth \<circ> lay) (layout no_options example_world) = Some 300 \<and>
   after (sidebarWidth \<circ> lay)
     (then_sashX_drag (pointer 350) [pointer 100] (layout no_options example_world)) = Some 300 \<and>
   after (sideBarHidden \<circ> partService)
     (then_sashX_drag (pointer 350) [pointer 100, pointer 221] (layout no_options example_world))
     = Some False \<and>
   after (sideBarHidden \<circ> partService)
     (then_sashX_drag (pointer 350) [pointer 100, pointer 221, pointer 60]
        (layout no_options example_world)) = Some True \<and>
   after (sidebarWidth \<circ> lay)
     (then_sashX_drag (pointer 350) [pointer 100, pointer 221, pointer 60]
        (layout no_options example_world)) = Some (- 1)"
  by (simp add: after_def then_sashX_drag_def pointer_def sashX_start_def sashX_change_def
        newSashWidth_def setSideBarHidden_def example_defs no_options_def run_defs)


subsection \<open>Hysteresis of the side bar sash\<close>

text \<open>
  Claim C2. While the side bar is visible, a change event that proposes the width
  \<open>minWidth - HIDE_SIDEBAR_WIDTH_THRESHOLD - 1\<close> hides it. While the side bar is hidden, a
  change event whose pointer is at least \<open>minWidth\<close> away from the reference coordinate
  in the opening direction (to the right for a side bar on the left, to the left
  otherwise) shows it again and sets the committed width to exactly \<open>minWidth\<close>.
\<close>

theorem sashX_change_hysteresis:
  assumes cs: "computedStyles (lay w) = Some cs"
      and wb: "workbenchSize (lay w) \<noteq> None"
  shows "(\<not> sideBarHidden (partService w) \<and>
          newSashWidth e w = sidebar_minWidth cs - HIDE_SIDEBAR_WIDTH_THRESHOLD - 1 \<longrightarrow>
            (\<exists>w'. sashX_change e w = Inr w' \<and> sideBarHidden (partService w'))) \<and>
         (sideBarHidden (partService w) \<and>
          (if sideBarPosition (partService w) = LEFT then e_currentX e - startX (lay w)
           else startX (lay w) - e_currentX e) \<ge> sidebar_minWidth cs \<longrightarrow>
            (\<exists>w'. sashX_change e w = Inr w' \<and> \<not> sideBarHidden (partService w') \<and>
                  sidebarWidth (lay w') = sidebar_minWidth cs))"
proof (intro conjI impI)
  assume a: "\<not> sideBarHidden (partService w) \<and>
          newSashWidth e w = sidebar_minWidth cs - HIDE_SIDEBAR_WIDTH_THRESHOLD - 1"
  then have "newSashWidth e w + HIDE_SIDEBAR_WIDTH_THRESHOLD < sidebar_minWidth cs"
    by simp
  from sashX_change_hide [OF cs _ wb this] a
  show "\<exists>w'. sashX_change e w = Inr w' \<and> sideBarHidden (partService w')"
    by blast
next
  assume a: "sideBarHidden (partService w) \<and>
          (if sideBarPosition (partService w) = LEFT then e_currentX e - startX (lay w)
           else startX (lay w) - e_currentX e) \<ge> sidebar_minWidth cs"
  then show "\<exists>w'. sashX_change e w = Inr w' \<and> \<not> sideBarHidden (partService w') \<and>
                  sidebarWidth (lay w') = sidebar_minWidth cs"
    using cs
    by (cases "sideBarPosition (partService w)")
       (simp_all add: sashX_change_def Let_def setSideBarHidden_def)
qed

theorem sashX_change_hysteresis_witness:
  "(\<exists>w'. sashX_change \<lparr>e_startX = 350, e_currentX = 169, e_startY = 0, e_currentY = 0\<rparr>
           (example_world\<lparr>lay := example_lay\<lparr>startSidebarWidth := 300, startX := 350\<rparr>\<rparr>) = Inr w' \<and>
         sideBarHidden (partService w')) \<and>
   (\<exists>w'. sashX_change \<lparr>e_startX = 350, e_currentX = 221, e_startY = 0, e_currentY = 0\<rparr>
           (example_world\<lparr>lay := example_lay\<lparr>startX := 50\<rparr>,
              partService := setSideBarHidden True (partService example_world)\<rparr>) = Inr w' \<and>
         \<not> sideBarHidden (partService w') \<and> sidebarWidth (lay w') = 170)"
  using sashX_change_hysteresis
          [of "example_world\<lparr>lay := example_lay\<lparr>startSidebarWidth := 300, startX := 350\<rparr>\<rparr>"
              example_styles "\<lparr>e_startX = 350, e_currentX = 169, e_startY = 0, e_currentY = 0\<rparr>"]
        sashX_change_hysteresis
          [of "example_world\<lparr>lay := example_lay\<lparr>startX := 50\<rparr>,
                 partService := setSideBarHidden True (partService example_world)\<rparr>"
              example_styles "\<lparr>e_startX = 350, e_currentX = 221, e_startY = 0, e_currentY = 0\<rparr>"]
  by (simp add: example_defs newSashWidth_def setSideBarHidden_def HIDE_SIDEBAR_WIDTH_THRESHOLD_def)

subsection \<open>Resetting the side bar sash\<close>

text \<open>
  Claim C8, as stated, fails when the style gives the side bar a minimum width above 170.
  In \<open>wide_style_world\<close> it is 200: the reset event, with no active viewlet, commits
  170, and the layout that ends the event raises the side bar to 200 and commits that.
\<close>

theorem sashX_reset_default_width_counterexample:
  "after (sidebarWidth \<circ> lay) (sashX_reset wide_style_world) = Some 200 \<and>
   after (box_width \<circ> sidebar \<circ> dom) (sashX_reset wide_style_world) = Some (Some 200) \<and>
   activeViewlet wide_style_world = None \<and>
   DEFAULT_MIN_SIDEBAR_PART_WIDTH \<noteq> 200"
  by (simp add: after_def sashX_reset_def setSideBarHidden_def wide_style_world_def example_defs
        no_options_def run_defs)

text \<open>
  Claim C8, amended. With no active viewlet, the reset event of the side bar sash writes
  the default minimum width 170 to the committed width and to the store, makes the side
  bar visible and lays out. After the event the committed width, the latest stored value
  and the side bar's applied width are one value: the larger of the style's minimum width
  and 170, or, when the editor's scaled minimum does not fit beside it, what the editor's
  minimum and the activity bar leave of the container, but at least 170. It is exactly
  170 whenever the style's minimum width is at most 170, its default. The write of 170
  stays in the store below the writes of the layout.
\<close>

theorem sashX_reset_default_width:
  assumes cs: "computedStyles (lay w) = Some cs"
      and th: "layout_titlebarHeight (titleBarHidden (partService w)) w = Inr th"
      and nv: "activeViewlet w = None"
      and min: "main_min = layout_editorMinWidth cs (visibleEditors w) (layoutEditorGroupsVertically (lay w))"
      and first: "side = max (sidebar_minWidth cs) DEFAULT_MIN_SIDEBAR_PART_WIDTH"
  shows "\<exists>w' writes applied. sashX_reset w = Inr w' \<and>
           \<not> sideBarHidden (partService w') \<and>
           storageService w' =
             writes @ (sashXWidthSettingsKey, DEFAULT_MIN_SIDEBAR_PART_WIDTH) # storageService w \<and>
           DEFAULT_MIN_SIDEBAR_PART_WIDTH = 170 \<and>
           sidebarWidth (lay w') = applied \<and>
           box_width (sidebar (dom w')) = Some applied \<and>
           stored (storageService w') sashXWidthSettingsKey = Some applied \<and>
           applied =
             (if width (clientArea w) - side - activitybar_width cs < main_min
              then max DEFAULT_MIN_SIDEBAR_PART_WIDTH
                     (width (clientArea w) - activitybar_width cs - main_min)
              else side) \<and>
           (sidebar_minWidth cs \<le> DEFAULT_MIN_SIDEBAR_PART_WIDTH \<longrightarrow> applied = 170)"
proof -
  define v where "v = w\<lparr>lay := (lay w)\<lparr>sidebarWidth := DEFAULT_MIN_SIDEBAR_PART_WIDTH\<rparr>,
                      storageService := store sashXWidthSettingsKey DEFAULT_MIN_SIDEBAR_PART_WIDTH (storageService w),
                      partService := setSideBarHidden False (partService w)\<rparr>"
  have r0: "sashX_reset w = layout no_options v"
    by (simp add: sashX_reset_def Let_def nv v_def DEFAULT_MIN_SIDEBAR_PART_WIDTH_def)
  have vcs: "computedStyles (lay v) = Some cs"
    using cs by (simp add: v_def)
  have ls: "layout_styles no_options v = v"
    by (rule layout_styles_idle [OF _ vcs]) (simp add: no_options_def)
  have vth: "layout_titlebarHeight (titleBarHidden (partService v)) v = Inr th"
    using th layout_titlebarHeight_cong [of v w] by (simp add: v_def setSideBarHidden_def)
  have vis: "\<not> sideBarHidden (partService v)"
    by (simp add: v_def setSideBarHidden_def)
  have vsw: "sidebarWidth (lay v) = DEFAULT_MIN_SIDEBAR_PART_WIDTH"
    by (simp add: v_def)
  have vst: "storageService v = (sashXWidthSettingsKey, DEFAULT_MIN_SIDEBAR_PART_WIDTH) # storageService w"
    by (simp add: v_def store_def)
  have vfr: "clientArea v = clientArea w" "visibleEditors v = visibleEditors w"
      "layoutEditorGroupsVertically (lay v) = layoutEditorGroupsVertically (lay w)"
    by (simp_all add: v_def)
  define sh where "sh = (if statusBarHidden (partService v) then 0 else statusbar_height cs)"
  define H where "H = height (clientArea v) - sh - th"
  define sw where "sw = (if sideBarHidden (partService v) then 0
                     else if sidebarWidth (lay v) \<noteq> - 1 then max (sidebar_minWidth cs) (sidebarWidth (lay v))
                     else width (clientArea v) / 5)"
  define p0 where "p0 = (if panelHidden (partService v) then 0
                     else if panelHeight (lay v) > 0
                       then min (H - DEFAULT_MIN_EDITOR_PART_HEIGHT) (max (panel_minHeight cs) (panelHeight (lay v)))
                     else H * DEFAULT_PANEL_HEIGHT_COEFFICIENT)"
  define emw where "emw = layout_editorMinWidth cs (visibleEditors v) (layoutEditorGroupsVertically (lay v))"
  define emh where "emh = layout_editorMinHeight cs (visibleEditors v) (layoutEditorGroupsVertically (lay v))"
  define ew where "ew = (if sideBarHidden (partService v) then width (clientArea v) - activitybar_width cs
                     else width (clientArea v) - sw - activitybar_width cs)"
  define eh where "eh = H - p0"
  define fsw where "fsw = (if ew < emw then max DEFAULT_MIN_SIDEBAR_PART_WIDTH (sw - (emw - ew)) else sw)"
  define fph where "fph = (if eh < emh then max DEFAULT_MIN_PANEL_PART_HEIGHT (p0 - (emh - eh)) else p0)"
  have nt: "\<not> toggleMaximizedPanel no_options"
    by (simp add: no_options_def)
  obtain w' where r: "layout no_options v = Inr w'"
      "box_width (sidebar (dom w')) = Some fsw"
      "sidebarWidth (lay w') = (if sideBarHidden (partService v) then sidebarWidth (lay v) else fsw)"
      "storageService w' =
         (if panelHidden (partService v) then [] else [(sashYHeightSettingsKey, fph)]) @
         (if sideBarHidden (partService v) then [] else [(sashXWidthSettingsKey, fsw)]) @
         storageService v"
      "partService w' = partService v"
    using layout_run [of no_options v, unfolded ls, OF vcs vth sh_def H_def sw_def p0_def
            layout_toggle_off [OF nt] emw_def emh_def ew_def eh_def fsw_def fph_def]
    by blast
  have keys: "sashYHeightSettingsKey \<noteq> sashXWidthSettingsKey"
    by (simp add: sashYHeightSettingsKey_def sashXWidthSettingsKey_def)
  have sw: "sw = side"
    by (simp add: sw_def vis vsw first DEFAULT_MIN_SIDEBAR_PART_WIDTH_def)
  have mm: "emw = main_min"
    by (simp add: emw_def min vfr)
  have ew: "ew = width (clientArea w) - side - activitybar_width cs"
    by (simp add: ew_def vis sw vfr)
  have e1: "side - (emw - ew) = width (clientArea w) - activitybar_width cs - main_min"
    by (simp add: ew mm)
  have "fsw = (if ew < emw then max DEFAULT_MIN_SIDEBAR_PART_WIDTH (side - (emw - ew)) else side)"
    by (simp only: fsw_def sw)
  also have "\<dots> = (if ew < emw
                   then max DEFAULT_MIN_SIDEBAR_PART_WIDTH
                          (width (clientArea w) - activitybar_width cs - main_min)
                   else side)"
    by (simp only: e1)
  also have "\<dots> = (if width (clientArea w) - side - activitybar_width cs < main_min
              then max DEFAULT_MIN_SIDEBAR_PART_WIDTH
                     (width (clientArea w) - activitybar_width cs - main_min)
              else side)"
    by (simp only: ew mm)
  finally have fsw: "fsw = (if width (clientArea w) - side - activitybar_width cs < main_min
              then max DEFAULT_MIN_SIDEBAR_PART_WIDTH
                     (width (clientArea w) - activitybar_width cs - main_min)
              else side)" .
  have small: "fsw = 170" if "sidebar_minWidth cs \<le> DEFAULT_MIN_SIDEBAR_PART_WIDTH"
  proof -
    have "side = 170"
      using that by (simp add: first DEFAULT_MIN_SIDEBAR_PART_WIDTH_def)
    then show ?thesis
      by (simp add: fsw DEFAULT_MIN_SIDEBAR_PART_WIDTH_def)
  qed
  have st: "storageService w' =
      ((if panelHidden (partService v) then [] else [(sashYHeightSettingsKey, fph)]) @
         [(sashXWidthSettingsKey, fsw)]) @
      (sashXWidthSettingsKey, DEFAULT_MIN_SIDEBAR_PART_WIDTH) # storageService w"
    using vis by (simp add: r(4) vst)
  have sd: "stored (storageService w') sashXWidthSettingsKey = Some fsw"
    using keys by (simp add: st stored_def)
  have c: "sidebarWidth (lay w') = fsw"
    using vis by (simp add: r(3))
  have vis': "\<not> sideBarHidden (partService w')"
    using vis by (simp add: r(5))
  have d: "DEFAULT_MIN_SIDEBAR_PART_WIDTH = 170"
    by (simp add: DEFAULT_MIN_SIDEBAR_PART_WIDTH_def)
  show ?thesis
    unfolding r0
  proof (intro exI conjI)
    show "layout no_options v = Inr w'" by (rule r(1))
    show "\<not> sideBarHidden (partService w')" by (rule vis')
    show "storageService w' =
      ((if panelHidden (partService v) then [] else [(sashYHeightSettingsKey, fph)]) @
         [(sashXWidthSettingsKey, fsw)]) @
      (sashXWidthSettingsKey, DEFAULT_MIN_SIDEBAR_PART_WIDTH) # storageService w" by (rule st)
    show "DEFAULT_MIN_SIDEBAR_PART_WIDTH = 170" by (rule d)
    show "sidebarWidth (lay w') = fsw" by (rule c)
    show "box_width (sidebar (dom w')) = Some fsw" by (rule r(2))
    show "stored (storageService w') sashXWidthSettingsKey = Some fsw" by (rule sd)
    show "fsw = (if width (clientArea w) - side - activitybar_width cs < main_min
              then max DEFAULT_MIN_SIDEBAR_PART_WIDTH
                     (width (clientArea w) - activitybar_width cs - main_min)
              else side)" by (rule fsw)
    show "sidebar_minWidth cs \<le> DEFAULT_MIN_SIDEBAR_PART_WIDTH \<longrightarrow> fsw = 170"
      using small by blast
  qed
qed

theorem sashX_reset_default_width_witness:
  "\<exists>w' writes applied. sashX_reset (example_world\<lparr>partService := setSideBarHidden True (partService example_world)\<rparr>) = Inr w' \<and>
       \<not> sideBarHidden (partService w') \<and>
       storageService w' = writes @ [(sashXWidthSettingsKey, 170)] \<and>
       sidebarWidth (lay w') = applied \<and>
       box_width (sidebar (dom w')) = Some applied \<and>
       stored (storageService w') sashXWidthSettingsKey = Some applied \<and>
       applied = 170"
proof -
  define W where "W = example_world\<lparr>partService := setSideBarHidden True (partService example_world)\<rparr>"
  have p1: "computedStyles (lay W) = Some example_styles"
    by (simp add: W_def example_defs)
  have p2: "layout_titlebarHeight (titleBarHidden (partService W)) W = Inr 22"
    by (simp add: W_def example_defs layout_titlebarHeight_def setSideBarHidden_def)
  have p3: "activeViewlet W = None"
    by (simp add: W_def example_defs)
  have p4: "220 = layout_editorMinWidth example_styles (visibleEditors W) (layoutEditorGroupsVertically (lay W))"
    by (simp add: W_def example_defs layout_editorMinWidth_def)
  have p5: "170 = max (sidebar_minWidth example_styles) DEFAULT_MIN_SIDEBAR_PART_WIDTH"
    by (simp add: example_defs DEFAULT_MIN_SIDEBAR_PART_WIDTH_def)
  have small: "sidebar_minWidth example_styles \<le> DEFAULT_MIN_SIDEBAR_PART_WIDTH"
    by (simp add: example_defs DEFAULT_MIN_SIDEBAR_PART_WIDTH_def)
  have st0: "storageService W = []"
    by (simp add: W_def example_defs)
  from sashX_reset_default_width [OF p1 p2 p3 p4 p5] small
  obtain w' writes applied where a: "sashX_reset W = Inr w'"
      "\<not> sideBarHidden (partService w')"
      "storageService w' = writes @ (sashXWidthSettingsKey, DEFAULT_MIN_SIDEBAR_PART_WIDTH) # storageService W"
      "sidebarWidth (lay w') = applied"
      "box_width (sidebar (dom w')) = Some applied"
      "stored (storageService w') sashXWidthSettingsKey = Some applied"
      "applied = 170"
    by blast
  have "storageService w' = writes @ [(sashXWidthSettingsKey, 170)]"
    by (simp add: a(3) st0 DEFAULT_MIN_SIDEBAR_PART_WIDTH_def)
  with a show ?thesis
    unfolding W_def by blast
qed


subsection \<open>What layout persists\<close>

text \<open>
  Claim C9. Every call of \<open>layout\<close> writes the side bar's applied width to the store
  and to the committed width when the side bar is visible, and the panel's applied
  height to the store and to the committed height when the panel is visible: the store
  receives the write whether or not the value has changed. For a hidden part the call
  adds no write, so the stored value stays, and the committed size stays as well.
\<close>

theorem layout_persists_visible_sizes:
  assumes cs: "computedStyles (lay (layout_styles options w)) = Some cs"
      and th: "layout_titlebarHeight (titleBarHidden (partService w)) (layout_styles options w) = Inr th"
      and tg: "toggleMaximizedPanel options \<longrightarrow> panelHeightBeforeMaximized (lay w) \<noteq> None"
  shows "\<exists>w' side bottom. layout options w = Inr w' \<and>
           box_width (sidebar (dom w')) = Some side \<and>
           box_height (panel (dom w')) = Some bottom \<and>
           storageService w' =
             (if panelHidden (partService w) then [] else [(sashYHeightSettingsKey, bottom)]) @
             (if sideBarHidden (partService w) then [] else [(sashXWidthSettingsKey, side)]) @
             storageService w \<and>
           sidebarWidth (lay w') = (if sideBarHidden (partService w) then sidebarWidth (lay w) else side) \<and>
           panelHeight (lay w') = (if panelHidden (partService w) then panelHeight (lay w) else bottom) \<and>
           stored (storageService w') sashXWidthSettingsKey =
             (if sideBarHidden (partService w) then stored (storageService w) sashXWidthSettingsKey
              else Some side) \<and>
           stored (storageService w') sashYHeightSettingsKey =
             (if panelHidden (partService w) then stored (storageService w) sashYHeightSettingsKey
              else Some bottom)"
proof -
  define sh where "sh = (if statusBarHidden (partService w) then 0 else statusbar_height cs)"
  define H where "H = height (clientArea w) - sh - th"
  define sw where "sw = (if sideBarHidden (partService w) then 0
                     else if sidebarWidth (lay w) \<noteq> - 1 then max (sidebar_minWidth cs) (sidebarWidth (lay w))
                     else width (clientArea w) / 5)"
  define p0 where "p0 = (if panelHidden (partService w) then 0
                     else if panelHeight (lay w) > 0
                       then min (H - DEFAULT_MIN_EDITOR_PART_HEIGHT) (max (panel_minHeight cs) (panelHeight (lay w)))
                     else H * DEFAULT_PANEL_HEIGHT_COEFFICIENT)"
  define emw where "emw = layout_editorMinWidth cs (visibleEditors w) (layoutEditorGroupsVertically (lay w))"
  define emh where "emh = layout_editorMinHeight cs (visibleEditors w) (layoutEditorGroupsVertically (lay w))"
  define ew where "ew = (if sideBarHidden (partService w) then width (clientArea w) - activitybar_width cs
                     else width (clientArea w) - sw - activitybar_width cs)"
  obtain ph b where t: "layout_toggle options cs p0 (H - DEFAULT_MIN_EDITOR_PART_HEIGHT)
                 (panelHeightBeforeMaximized (lay w)) = Inr (ph, b)"
    using layout_toggle_total [OF tg] by blast
  define eh where "eh = H - ph"
  define fsw where "fsw = (if ew < emw then max DEFAULT_MIN_SIDEBAR_PART_WIDTH (sw - (emw - ew)) else sw)"
  define fph where "fph = (if eh < emh then max DEFAULT_MIN_PANEL_PART_HEIGHT (ph - (emh - eh)) else ph)"
  obtain w' where r: "layout options w = Inr w'"
      "box_width (sidebar (dom w')) = Some fsw"
      "box_height (panel (dom w')) = Some fph"
      "sidebarWidth (lay w') = (if sideBarHidden (partService w) then sidebarWidth (lay w) else fsw)"
      "panelHeight (lay w') = (if panelHidden (partService w) then panelHeight (lay w) else fph)"
      "storageService w' =
         (if panelHidden (partService w) then [] else [(sashYHeightSettingsKey, fph)]) @
         (if sideBarHidden (partService w) then [] else [(sashXWidthSettingsKey, fsw)]) @
         storageService w"
    using layout_run [OF cs th sh_def H_def sw_def p0_def t emw_def emh_def ew_def eh_def fsw_def fph_def]
    by blast
  have keys: "sashYHeightSettingsKey \<noteq> sashXWidthSettingsKey"
    by (simp add: sashYHeightSettingsKey_def sashXWidthSettingsKey_def)
  have sx: "stored (storageService w') sashXWidthSettingsKey =
             (if sideBarHidden (partService w) then stored (storageService w) sashXWidthSettingsKey
              else Some fsw)"
    using keys by (simp add: r(6) stored_def)
  have sy: "stored (storageService w') sashYHeightSettingsKey =
             (if panelHidden (partService w) then stored (storageService w) sashYHeightSettingsKey
              else Some fph)"
    using keys by (simp add: r(6) stored_def)
  show ?thesis
    using r sx sy by blast
qed

theorem layout_persists_visible_sizes_witness:
  "\<exists>w' side bottom.
     layout no_options (example_world\<lparr>partService := setPanelHidden True (partService example_world)\<rparr>) = Inr w' \<and>
     box_width (sidebar (dom w')) = Some side \<and>
     box_height (panel (dom w')) = Some bottom \<and>
     storageService w' = [(sashXWidthSettingsKey, side)] \<and>
     sidebarWidth (lay w') = side \<and>
     panelHeight (lay w') = 200 \<and>
     stored (storageService w') sashXWidthSettingsKey = Some side \<and>
     stored (storageService w') sashYHeightSettingsKey = None"
  using layout_persists_visible_sizes
          [of no_options "example_world\<lparr>partService := setPanelHidden True (partService example_world)\<rparr>"
              example_styles 22]
  by (simp add: example_defs no_options_def layout_styles_def layout_titlebarHeight_def
        setPanelHidden_def stored_def)

subsection \<open>The side bar width rule\<close>

text \<open>
  Claim C6, as stated, fails when the overflow correction fires. In \<open>overflow_world\<close>
  the side bar is visible with 600 committed, above the style's minimum 170, so the rule
  gives 600; two editors side by side need 440 of the 800, and the side bar is applied and
  committed at 310.
\<close>

theorem layout_sidebar_width_rule_counterexample:
  "after (box_width \<circ> sidebar \<circ> dom) (layout no_options overflow_world) = Some (Some 310) \<and>
   after (sidebarWidth \<circ> lay) (layout no_options overflow_world) = Some 310 \<and>
   \<not> sideBarHidden (partService overflow_world) \<and>
   sidebarWidth (lay overflow_world) \<noteq> - 1 \<and>
   computedStyles (lay overflow_world) = Some example_styles \<and>
   max (sidebar_minWidth example_styles) (sidebarWidth (lay overflow_world)) = 600"
  by (simp add: after_def overflow_world_def example_defs no_options_def run_defs)

text \<open>
  Claim C6, amended. The width \<open>side\<close> that \<open>layout\<close> first gives the side bar is 0 when
  the side bar is hidden, the larger of the style's minimum width and the committed width
  when a width is committed, and a fifth of the container width when the committed width
  is the sentinel -1. The panel and the editor are measured against it: the field
  \<open>panelWidth\<close> is the container width less \<open>side\<close> and the activity bar. When the
  editor's scaled minimum width fits into that space, \<open>side\<close> is the width applied to the
  side bar. When it does not fit and the side bar is visible, the applied width is what
  the editor's minimum and the activity bar leave of the container, but at least the
  default minimum 170. For a visible side bar the applied width is the new committed width
  and the stored value; in the third case with a fitting editor that is the default.
\<close>

theorem layout_sidebar_width_rule:
  assumes cs: "computedStyles (lay (layout_styles options w)) = Some cs"
      and th: "layout_titlebarHeight (titleBarHidden (partService w)) (layout_styles options w) = Inr th"
      and tg: "toggleMaximizedPanel options \<longrightarrow> panelHeightBeforeMaximized (lay w) \<noteq> None"
      and rule: "side =
                  (if sideBarHidden (partService w) then 0
                   else if sidebarWidth (lay w) \<noteq> - 1
                     then max (sidebar_minWidth cs) (sidebarWidth (lay w))
                   else width (clientArea w) / 5)"
      and min: "main_min = layout_editorMinWidth cs (visibleEditors w) (layoutEditorGroupsVertically (lay w))"
  shows "\<exists>w' applied. layout options w = Inr w' \<and>
           panelWidth (lay w') = width (clientArea w) - side - activitybar_width cs \<and>
           box_width (sidebar (dom w')) = Some applied \<and>
           (main_min \<le> width (clientArea w) - side - activitybar_width cs \<longrightarrow> applied = side) \<and>
           (\<not> sideBarHidden (partService w) \<and>
            width (clientArea w) - side - activitybar_width cs < main_min \<longrightarrow>
              applied = max DEFAULT_MIN_SIDEBAR_PART_WIDTH
                          (width (clientArea w) - activitybar_width cs - main_min)) \<and>
           (\<not> sideBarHidden (partService w) \<longrightarrow>
              sidebarWidth (lay w') = applied \<and>
              stored (storageService w') sashXWidthSettingsKey = Some applied)"
proof -
  define sh where "sh = (if statusBarHidden (partService w) then 0 else statusbar_height cs)"
  define H where "H = height (clientArea w) - sh - th"
  define sw where "sw = (if sideBarHidden (partService w) then 0
                     else if sidebarWidth (lay w) \<noteq> - 1 then max (sidebar_minWidth cs) (sidebarWidth (lay w))
                     else width (clientArea w) / 5)"
  define p0 where "p0 = (if panelHidden (partService w) then 0
                     else if panelHeight (lay w) > 0
                       then min (H - DEFAULT_MIN_EDITOR_PART_HEIGHT) (max (panel_minHeight cs) (panelHeight (lay w)))
                     else H * DEFAULT_PANEL_HEIGHT_COEFFICIENT)"
  define emw where "emw = layout_editorMinWidth cs (visibleEditors w) (layoutEditorGroupsVertically (lay w))"
  define emh where "emh = layout_editorMinHeight cs (visibleEditors w) (layoutEditorGroupsVertically (lay w))"
  define ew where "ew = (if sideBarHidden (partService w) then width (clientArea w) - activitybar_width cs
                     else width (clientArea w) - sw - activitybar_width cs)"
  obtain ph b where t: "layout_toggle options cs p0 (H - DEFAULT_MIN_EDITOR_PART_HEIGHT)
                 (panelHeightBeforeMaximized (lay w)) = Inr (ph, b)"
    using layout_toggle_total [OF tg] by blast
  define eh where "eh = H - ph"
  define fsw where "fsw = (if ew < emw then max DEFAULT_MIN_SIDEBAR_PART_WIDTH (sw - (emw - ew)) else sw)"
  define fph where "fph = (if eh < emh then max DEFAULT_MIN_PANEL_PART_HEIGHT (ph - (emh - eh)) else ph)"
  obtain w' where r: "layout options w = Inr w'"
      "box_width (sidebar (dom w')) = Some fsw"
      "panelWidth (lay w') = width (clientArea w) - sw - activitybar_width cs"
      "sidebarWidth (lay w') = (if sideBarHidden (partService w) then sidebarWidth (lay w) else fsw)"
      "storageService w' =
         (if panelHidden (partService w) then [] else [(sashYHeightSettingsKey, fph)]) @
         (if sideBarHidden (partService w) then [] else [(sashXWidthSettingsKey, fsw)]) @
         storageService w"
    using layout_run [OF cs th sh_def H_def sw_def p0_def t emw_def emh_def ew_def eh_def fsw_def fph_def]
    by blast
  have side: "side = sw"
    by (simp add: rule sw_def)
  have mm: "main_min = emw"
    by (simp add: min emw_def)
  have ew: "ew = width (clientArea w) - sw - activitybar_width cs"
    by (simp add: ew_def sw_def)
  have keys: "sashYHeightSettingsKey \<noteq> sashXWidthSettingsKey"
    by (simp add: sashYHeightSettingsKey_def sashXWidthSettingsKey_def)
  have fit: "fsw = sw" if "emw \<le> width (clientArea w) - sw - activitybar_width cs"
    using that by (simp add: fsw_def ew)
  have over: "fsw = max DEFAULT_MIN_SIDEBAR_PART_WIDTH (width (clientArea w) - activitybar_width cs - emw)"
    if "width (clientArea w) - sw - activitybar_width cs < emw"
  proof -
    have "sw - (emw - ew) = width (clientArea w) - activitybar_width cs - emw"
      by (simp add: ew)
    then show ?thesis
      using that by (simp add: fsw_def ew [symmetric])
  qed
  have st: "stored (storageService w') sashXWidthSettingsKey = Some fsw"
    if "\<not> sideBarHidden (partService w)"
    using that keys by (simp add: r(5) stored_def)
  show ?thesis
    using r(1-4) fit over st unfolding side mm
    by (intro exI [of _ w'] exI [of _ fsw]) simp
qed

theorem layout_sidebar_width_rule_witness:
  "(\<exists>w' applied. layout no_options (example_world\<lparr>lay := example_lay\<lparr>sidebarWidth := - 1\<rparr>\<rparr>) = Inr w' \<and>
     panelWidth (lay w') = 910 \<and>
     box_width (sidebar (dom w')) = Some applied \<and>
     applied = 240 \<and>
     sidebarWidth (lay w') = applied \<and>
     stored (storageService w') sashXWidthSettingsKey = Some applied) \<and>
   (\<exists>w' applied. layout no_options overflow_world = Inr w' \<and>
     panelWidth (lay w') = 150 \<and>
     box_width (sidebar (dom w')) = Some applied \<and>
     applied = 310 \<and>
     sidebarWidth (lay w') = applied \<and>
     stored (storageService w') sashXWidthSettingsKey = Some applied)"
proof
  define W where "W = example_world\<lparr>lay := example_lay\<lparr>sidebarWidth := - 1\<rparr>\<rparr>"
  have p1: "computedStyles (lay (layout_styles no_options W)) = Some example_styles"
    by (simp add: W_def example_defs no_options_def layout_styles_def)
  have p2: "layout_titlebarHeight (titleBarHidden (partService W)) (layout_styles no_options W) = Inr 22"
    by (simp add: W_def example_defs no_options_def layout_styles_def layout_titlebarHeight_def)
  have p3: "toggleMaximizedPanel no_options \<longrightarrow> panelHeightBeforeMaximized (lay W) \<noteq> None"
    by (simp add: no_options_def)
  have p4: "240 =
             (if sideBarHidden (partService W) then 0
              else if sidebarWidth (lay W) \<noteq> - 1
                then max (sidebar_minWidth example_styles) (sidebarWidth (lay W))
              else width (clientArea W) / 5)"
    by (simp add: W_def example_defs)
  have p5: "220 = layout_editorMinWidth example_styles (visibleEditors W) (layoutEditorGroupsVertically (lay W))"
    by (simp add: W_def example_defs layout_editorMinWidth_def)
  have vis: "\<not> sideBarHidden (partService W)"
    by (simp add: W_def example_defs)
  have fits: "(220::real) \<le> width (clientArea W) - 240 - activitybar_width example_styles"
    by (simp add: W_def example_defs)
  have pw: "width (clientArea W) - 240 - activitybar_width example_styles = 910"
    by (simp add: W_def example_defs)
  from layout_sidebar_width_rule [OF p1 p2 p3 p4 p5] vis fits
  obtain w' applied where a: "layout no_options W = Inr w'"
      "panelWidth (lay w') = width (clientArea W) - 240 - activitybar_width example_styles"
      "box_width (sidebar (dom w')) = Some applied"
      "applied = 240"
      "sidebarWidth (lay w') = applied"
      "stored (storageService w') sashXWidthSettingsKey = Some applied"
    by blast
  have "panelWidth (lay w') = 910"
    using a(2) pw by simp
  with a(1,3-6)
  show "\<exists>w' applied. layout no_options (example_world\<lparr>lay := example_lay\<lparr>sidebarWidth := - 1\<rparr>\<rparr>) = Inr w' \<and>
     panelWidth (lay w') = 910 \<and>
     box_width (sidebar (dom w')) = Some applied \<and>
     applied = 240 \<and>
     sidebarWidth (lay w') = applied \<and>
     stored (storageService w') sashXWidthSettingsKey = Some applied"
    unfolding W_def by blast
next
  have p1: "computedStyles (lay (layout_styles no_options overflow_world)) = Some example_styles"
    by (simp add: overflow_world_def example_defs no_options_def layout_styles_def)
  have p2: "layout_titlebarHeight (titleBarHidden (partService overflow_world))
              (layout_styles no_options overflow_world) = Inr 22"
    by (simp add: overflow_world_def example_defs no_options_def layout_styles_def
          layout_titlebarHeight_def)
  have p3: "toggleMaximizedPanel no_options \<longrightarrow> panelHeightBeforeMaximized (lay overflow_world) \<noteq> None"
    by (simp add: no_options_def)
  have p4: "600 =
             (if sideBarHidden (partService overflow_world) then 0
              else if sidebarWidth (lay overflow_world) \<noteq> - 1
                then max (sidebar_minWidth example_styles) (sidebarWidth (lay overflow_world))
              else width (clientArea overflow_world) / 5)"
    by (simp add: overflow_world_def example_defs)
  have p5: "440 = layout_editorMinWidth example_styles (visibleEditors overflow_world)
                    (layoutEditorGroupsVertically (lay overflow_world))"
    by (simp add: overflow_world_def example_defs layout_editorMinWidth_def)
  have vis: "\<not> sideBarHidden (partService overflow_world)"
    by (simp add: overflow_world_def example_defs)
  have over: "width (clientArea overflow_world) - 600 - activitybar_width example_styles < (440::real)"
    by (simp add: overflow_world_def example_defs)
  have pw: "width (clientArea overflow_world) - 600 - activitybar_width example_styles = 150"
    by (simp add: overflow_world_def example_defs)
  have ap: "max DEFAULT_MIN_SIDEBAR_PART_WIDTH
              (width (clientArea overflow_world) - activitybar_width example_styles - 440) = 310"
    by (simp add: overflow_world_def example_defs DEFAULT_MIN_SIDEBAR_PART_WIDTH_def)
  from layout_sidebar_width_rule [OF p1 p2 p3 p4 p5] vis over
  obtain w' applied where a: "layout no_options overflow_world = Inr w'"
      "panelWidth (lay w') = width (clientArea overflow_world) - 600 - activitybar_width example_styles"
      "box_width (sidebar (dom w')) = Some applied"
      "applied = max DEFAULT_MIN_SIDEBAR_PART_WIDTH
              (width (clientArea overflow_world) - activitybar_width example_styles - 440)"
      "sidebarWidth (lay w') = applied"
      "stored (storageService w') sashXWidthSettingsKey = Some applied"
    by blast
  have "panelWidth (lay w') = 150" "applied = 310"
    using a(2,4) pw ap by simp_all
  with a(1,3,5,6)
  show "\<exists>w' applied. layout no_options overflow_world = Inr w' \<and>
     panelWidth (lay w') = 150 \<and>
     box_width (sidebar (dom w')) = Some applied \<and>
     applied = 310 \<and>
     sidebarWidth (lay w') = applied \<and>
     stored (storageService w') sashXWidthSettingsKey = Some applied"
    by blast
qed


subsection \<open>The partition of the container\<close>

text \<open>
  Claim C1, as stated, fails when the style's minimum width of the side bar is below the
  default 170. In \<open>narrow_world\<close> the style's minimums, 100 for the side bar, 50 for the
  activity bar and 220 for the editor, fit into the container's 380, and so do the heights.
  With 150 committed the editor would get 180; the overflow correction gives it 220 and
  holds the side bar at its floor 170, and the three widths add up to 440.
\<close>

theorem layout_partition_counterexample:
  "after (box_width \<circ> sidebar \<circ> dom) (layout no_options narrow_world) = Some (Some 170) \<and>
   after (activitybarWidth \<circ> lay) (layout no_options narrow_world) = Some 50 \<and>
   after (box_width \<circ> editor \<circ> dom) (layout no_options narrow_world) = Some (Some 220) \<and>
   computedStyles (lay narrow_world) = Some (example_styles\<lparr>sidebar_minWidth := 100\<rparr>) \<and>
   sidebar_minWidth (example_styles\<lparr>sidebar_minWidth := 100\<rparr>) +
     activitybar_width (example_styles\<lparr>sidebar_minWidth := 100\<rparr>) +
     editor_minWidth (example_styles\<lparr>sidebar_minWidth := 100\<rparr>) \<le> width (clientArea narrow_world) \<and>
   titlebar_height example_styles + editor_minHeight example_styles + panel_minHeight example_styles +
     statusbar_height example_styles \<le> height (clientArea narrow_world) \<and>
   (170::real) + 50 + 220 \<noteq> width (clientArea narrow_world)"
  by (simp add: after_def narrow_world_def example_defs no_options_def run_defs)

text \<open>
  Claim C1, amended. The minimums are the ones \<open>layout\<close> enforces: the default minimums 170
  for a visible side bar and 77 for a visible panel, nothing for a hidden one, and the
  editor's minimum scaled by the number of visible editors along the axis of the editor
  groups. Let the container be at least as wide as the side bar's minimum, the activity
  bar and the editor's minimum width together, and at least as high as the title bar, the
  editor's minimum height, the panel's minimum and the status bar together; and let a
  call with the maximize toggle find the panel visible and a height remembered. Then after
  \<open>layout\<close> the widths of side bar, activity bar and editor add up to the container width,
  and the heights of title bar, editor, panel and status bar add up to the container
  height; a hidden part has the size 0.
\<close>

theorem layout_partition:
  assumes cs: "computedStyles (lay (layout_styles options w)) = Some cs"
      and th: "layout_titlebarHeight (titleBarHidden (partService w)) (layout_styles options w) = Inr th"
      and tg: "toggleMaximizedPanel options \<longrightarrow>
                 \<not> panelHidden (partService w) \<and> panelHeightBeforeMaximized (lay w) \<noteq> None"
      and wide: "(if sideBarHidden (partService w) then 0 else DEFAULT_MIN_SIDEBAR_PART_WIDTH) +
                   activitybar_width cs +
                   layout_editorMinWidth cs (visibleEditors w) (layoutEditorGroupsVertically (lay w))
                 \<le> width (clientArea w)"
      and high: "th + layout_editorMinHeight cs (visibleEditors w) (layoutEditorGroupsVertically (lay w)) +
                   (if panelHidden (partService w) then 0 else DEFAULT_MIN_PANEL_PART_HEIGHT) +
                   (if statusBarHidden (partService w) then 0 else statusbar_height cs)
                 \<le> height (clientArea w)"
  shows "\<exists>w' side main_width main_height bottom.
           layout options w = Inr w' \<and>
           box_width (sidebar (dom w')) = Some side \<and>
           box_width (editor (dom w')) = Some main_width \<and>
           box_height (editor (dom w')) = Some main_height \<and>
           box_height (panel (dom w')) = Some bottom \<and>
           side + activitybarWidth (lay w') + main_width = width (clientArea w) \<and>
           titlebarHeight (lay w') + main_height + bottom + statusbarHeight (lay w') = height (clientArea w) \<and>
           (sideBarHidden (partService w) \<longrightarrow> side = 0) \<and>
           (panelHidden (partService w) \<longrightarrow> bottom = 0) \<and>
           (titleBarHidden (partService w) \<longrightarrow> titlebarHeight (lay w') = 0) \<and>
           (statusBarHidden (partService w) \<longrightarrow> statusbarHeight (lay w') = 0)"
proof -
  define sh where "sh = (if statusBarHidden (partService w) then 0 else statusbar_height cs)"
  define H where "H = height (clientArea w) - sh - th"
  define sw where "sw = (if sideBarHidden (partService w) then 0
                     else if sidebarWidth (lay w) \<noteq> - 1 then max (sidebar_minWidth cs) (sidebarWidth (lay w))
                     else width (clientArea w) / 5)"
  define p0 where "p0 = (if panelHidden (partService w) then 0
                     else if panelHeight (lay w) > 0
                       then min (H - DEFAULT_MIN_EDITOR_PART_HEIGHT) (max (panel_minHeight cs) (panelHeight (lay w)))
                     else H * DEFAULT_PANEL_HEIGHT_COEFFICIENT)"
  define emw where "emw = layout_editorMinWidth cs (visibleEditors w) (layoutEditorGroupsVertically (lay w))"
  define emh where "emh = layout_editorMinHeight cs (visibleEditors w) (layoutEditorGroupsVertically (lay w))"
  define ew where "ew = (if sideBarHidden (partService w) then width (clientArea w) - activitybar_width cs
                     else width (clientArea w) - sw - activitybar_width cs)"
  have tg': "toggleMaximizedPanel options \<longrightarrow> panelHeightBeforeMaximized (lay w) \<noteq> None"
    using tg by simp
  obtain ph b where t: "layout_toggle options cs p0 (H - DEFAULT_MIN_EDITOR_PART_HEIGHT)
                 (panelHeightBeforeMaximized (lay w)) = Inr (ph, b)"
    using layout_toggle_total [OF tg'] by blast
  define eh where "eh = H - ph"
  define fsw where "fsw = (if ew < emw then max DEFAULT_MIN_SIDEBAR_PART_WIDTH (sw - (emw - ew)) else sw)"
  define fph where "fph = (if eh < emh then max DEFAULT_MIN_PANEL_PART_HEIGHT (ph - (emh - eh)) else ph)"
  obtain w' where r: "layout options w = Inr w'"
      "box_width (sidebar (dom w')) = Some fsw"
      "box_width (editor (dom w')) = Some (if ew < emw then emw else ew)"
      "box_height (editor (dom w')) = Some (if eh < emh then emh else eh)"
      "box_height (panel (dom w')) = Some fph"
      "titlebarHeight (lay w') = th" "statusbarHeight (lay w') = sh"
      "activitybarWidth (lay w') = activitybar_width cs"
    using layout_run [OF cs th sh_def H_def sw_def p0_def t emw_def emh_def
            ew_def eh_def fsw_def fph_def]
    by blast
  have wide': "(if sideBarHidden (partService w) then 0 else DEFAULT_MIN_SIDEBAR_PART_WIDTH) +
                 activitybar_width cs + emw \<le> width (clientArea w)"
    using wide by (simp add: emw_def)
  have high': "(if panelHidden (partService w) then 0 else DEFAULT_MIN_PANEL_PART_HEIGHT) + emh \<le> H"
    using high by (simp add: emh_def H_def sh_def)
  have ew: "ew = width (clientArea w) - sw - activitybar_width cs"
    by (simp add: ew_def sw_def)
  have hidden_side: "fsw = 0" if "sideBarHidden (partService w)"
  proof -
    have "sw = 0" using that by (simp add: sw_def)
    moreover have "\<not> ew < emw"
      using wide' that \<open>sw = 0\<close> by (simp add: ew)
    ultimately show ?thesis by (simp add: fsw_def)
  qed
  have horizontal: "fsw + activitybar_width cs + (if ew < emw then emw else ew) = width (clientArea w)"
  proof (cases "sideBarHidden (partService w)")
    case True
    have "sw = 0" using True by (simp add: sw_def)
    moreover have "\<not> ew < emw"
      using wide' True \<open>sw = 0\<close> by (simp add: ew)
    ultimately show ?thesis by (simp add: fsw_def ew)
  next
    case False
    then show ?thesis
      using wide' by (simp add: fsw_def ew)
  qed
  have hidden_panel: "fph = 0" if "panelHidden (partService w)"
  proof -
    have "p0 = 0" using that by (simp add: p0_def)
    moreover have "\<not> toggleMaximizedPanel options" using tg that by blast
    ultimately have "ph = 0" using t by (simp add: layout_toggle_def)
    moreover have "\<not> eh < emh"
      using high' that \<open>ph = 0\<close> by (simp add: eh_def)
    ultimately show ?thesis by (simp add: fph_def)
  qed
  have vertical: "th + (if eh < emh then emh else eh) + fph + sh = height (clientArea w)"
  proof (cases "panelHidden (partService w)")
    case True
    have "p0 = 0" using True by (simp add: p0_def)
    moreover have "\<not> toggleMaximizedPanel options" using tg True by blast
    ultimately have "ph = 0" using t by (simp add: layout_toggle_def)
    moreover have "\<not> eh < emh"
      using high' True \<open>ph = 0\<close> by (simp add: eh_def)
    ultimately show ?thesis by (simp add: fph_def eh_def H_def)
  next
    case False
    then show ?thesis
      using high' by (simp add: fph_def eh_def H_def)
  qed
  have hidden_title: "th = 0" if "titleBarHidden (partService w)"
    using th that by (simp add: layout_titlebarHeight_def)
  have hidden_status: "sh = 0" if "statusBarHidden (partService w)"
    using that by (simp add: sh_def)
  show ?thesis
    using r horizontal vertical hidden_side hidden_panel hidden_title hidden_status
    by (intro exI [of _ w'] exI [of _ fsw] exI [of _ "if ew < emw then emw else ew"]
          exI [of _ "if eh < emh then emh else eh"] exI [of _ fph]) simp
qed

theorem layout_partition_witness:
  "(\<exists>w' side main_width main_height bottom.
     layout no_options (example_world\<lparr>partService := setPanelHidden True (partService example_world),
                                     visibleEditors := 2\<rparr>) = Inr w' \<and>
     box_width (sidebar (dom w')) = Some side \<and>
     box_width (editor (dom w')) = Some main_width \<and>
     box_height (editor (dom w')) = Some main_height \<and>
     box_height (panel (dom w')) = Some bottom \<and>
     side + activitybarWidth (lay w') + main_width = 1200 \<and>
     titlebarHeight (lay w') + main_height + bottom + statusbarHeight (lay w') = 800 \<and>
     bottom = 0) \<and>
   (\<exists>w' side main_width main_height bottom.
     layout toggle_options
       (example_world\<lparr>lay := example_lay\<lparr>panelHeightBeforeMaximized := Some 150\<rparr>\<rparr>) = Inr w' \<and>
     box_width (sidebar (dom w')) = Some side \<and>
     box_width (editor (dom w')) = Some main_width \<and>
     box_height (editor (dom w')) = Some main_height \<and>
     box_height (panel (dom w')) = Some bottom \<and>
     side + activitybarWidth (lay w') + main_width = 1200 \<and>
     titlebarHeight (lay w') + main_height + bottom + statusbarHeight (lay w') = 800)"
proof
  show "\<exists>w' side main_width main_height bottom.
     layout no_options (example_world\<lparr>partService := setPanelHidden True (partService example_world),
                                     visibleEditors := 2\<rparr>) = Inr w' \<and>
     box_width (sidebar (dom w')) = Some side \<and>
     box_width (editor (dom w')) = Some main_width \<and>
     box_height (editor (dom w')) = Some main_height \<and>
     box_height (panel (dom w')) = Some bottom \<and>
     side + activitybarWidth (lay w') + main_width = 1200 \<and>
     titlebarHeight (lay w') + main_height + bottom + statusbarHeight (lay w') = 800 \<and>
     bottom = 0"
    using layout_partition
          [of no_options "example_world\<lparr>partService := setPanelHidden True (partService example_world),
                                     visibleEditors := 2\<rparr>" example_styles 22]
    by (simp add: example_defs no_options_def layout_styles_def layout_titlebarHeight_def
        setPanelHidden_def layout_editorMinWidth_def layout_editorMinHeight_def constants_defs)
  show "\<exists>w' side main_width main_height bottom.
     layout toggle_options
       (example_world\<lparr>lay := example_lay\<lparr>panelHeightBeforeMaximized := Some 150\<rparr>\<rparr>) = Inr w' \<and>
     box_width (sidebar (dom w')) = Some side \<and>
     box_width (editor (dom w')) = Some main_width \<and>
     box_height (editor (dom w')) = Some main_height \<and>
     box_height (panel (dom w')) = Some bottom \<and>
     side + activitybarWidth (lay w') + main_width = 1200 \<and>
     titlebarHeight (lay w') + main_height + bottom + statusbarHeight (lay w') = 800"
    using layout_partition
          [of toggle_options "example_world\<lparr>lay := example_lay\<lparr>panelHeightBeforeMaximized := Some 150\<rparr>\<rparr>"
              example_styles 22]
    by (simp add: example_defs toggle_options_def layout_styles_def layout_titlebarHeight_def
        layout_editorMinWidth_def layout_editorMinHeight_def constants_defs)
qed

subsection \<open>The panel and the editor's minimum height\<close>

text \<open>
  Claim C7, as stated, fails in a small container. In \<open>small_world\<close> the container is
  144 high and 100 remain between title bar and status bar; the panel, visible and with
  no committed height, first gets 40, the editor's 60 are below its minimum 70, and the
  correction raises the panel to its floor 77, above \<open>144 - 70 = 74\<close>.
\<close>

theorem layout_panel_height_bound_counterexample:
  "after (box_height \<circ> panel \<circ> dom) (layout no_options small_world) = Some (Some 77) \<and>
   \<not> panelHidden (partService small_world) \<and>
   \<not> 77 \<le> height (clientArea small_world) - DEFAULT_MIN_EDITOR_PART_HEIGHT"
  by (simp add: after_def small_world_def example_defs no_options_def run_defs)

text \<open>
  Claim C7, amended. Let the height between title bar and status bar be at least the
  editor's minimum 70 plus the panel's minimum (the larger of the style's minimum height
  and the floor 77). Then after every call of \<open>layout\<close>, with or without the maximize toggle
  (a toggle needs \<open>panelHeightBeforeMaximized\<close> to have been written), on the committed and
  on the default branch, the panel's applied height is at most that height less 70, and
  so at most the container height less the editor's minimum height; the editor's applied
  height is at least its minimum 70; for a visible panel the applied height is the
  committed height.
\<close>

theorem layout_panel_height_bound:
  assumes cs: "computedStyles (lay (layout_styles options w)) = Some cs"
      and th: "layout_titlebarHeight (titleBarHidden (partService w)) (layout_styles options w) = Inr th"
      and tg: "toggleMaximizedPanel options \<longrightarrow> panelHeightBeforeMaximized (lay w) \<noteq> None"
      and emin: "editor_minHeight cs = DEFAULT_MIN_EDITOR_PART_HEIGHT"
      and room: "max (panel_minHeight cs) DEFAULT_MIN_PANEL_PART_HEIGHT + DEFAULT_MIN_EDITOR_PART_HEIGHT
                 \<le> height (clientArea w) - th -
                    (if statusBarHidden (partService w) then 0 else statusbar_height cs)"
      and top: "0 \<le> th"
      and status: "0 \<le> statusbar_height cs"
  shows "\<exists>w' bottom main. layout options w = Inr w' \<and>
           box_height (panel (dom w')) = Some bottom \<and>
           box_height (editor (dom w')) = Some main \<and>
           DEFAULT_MIN_EDITOR_PART_HEIGHT \<le> main \<and>
           (\<not> panelHidden (partService w) \<longrightarrow> panelHeight (lay w') = bottom) \<and>
           bottom \<le> height (clientArea w) - titlebarHeight (lay w') - statusbarHeight (lay w')
                      - DEFAULT_MIN_EDITOR_PART_HEIGHT \<and>
           bottom \<le> height (clientArea w) - DEFAULT_MIN_EDITOR_PART_HEIGHT"
proof -
  define sh where "sh = (if statusBarHidden (partService w) then 0 else statusbar_height cs)"
  define H where "H = height (clientArea w) - sh - th"
  define sw where "sw = (if sideBarHidden (partService w) then 0
                     else if sidebarWidth (lay w) \<noteq> - 1 then max (sidebar_minWidth cs) (sidebarWidth (lay w))
                     else width (clientArea w) / 5)"
  define p0 where "p0 = (if panelHidden (partService w) then 0
                     else if panelHeight (lay w) > 0
                       then min (H - DEFAULT_MIN_EDITOR_PART_HEIGHT) (max (panel_minHeight cs) (panelHeight (lay w)))
                     else H * DEFAULT_PANEL_HEIGHT_COEFFICIENT)"
  define emw where "emw = layout_editorMinWidth cs (visibleEditors w) (layoutEditorGroupsVertically (lay w))"
  define emh where "emh = layout_editorMinHeight cs (visibleEditors w) (layoutEditorGroupsVertically (lay w))"
  define ew where "ew = (if sideBarHidden (partService w) then width (clientArea w) - activitybar_width cs
                     else width (clientArea w) - sw - activitybar_width cs)"
  obtain ph b where t: "layout_toggle options cs p0 (H - DEFAULT_MIN_EDITOR_PART_HEIGHT)
                 (panelHeightBeforeMaximized (lay w)) = Inr (ph, b)"
    using layout_toggle_total [OF tg] by blast
  define eh where "eh = H - ph"
  define fsw where "fsw = (if ew < emw then max DEFAULT_MIN_SIDEBAR_PART_WIDTH (sw - (emw - ew)) else sw)"
  define fph where "fph = (if eh < emh then max DEFAULT_MIN_PANEL_PART_HEIGHT (ph - (emh - eh)) else ph)"
  obtain w' where r: "layout options w = Inr w'"
      "box_height (panel (dom w')) = Some fph"
      "panelHeight (lay w') = (if panelHidden (partService w) then panelHeight (lay w) else fph)"
      "titlebarHeight (lay w') = th" "statusbarHeight (lay w') = sh"
      "box_height (editor (dom w')) = Some (if eh < emh then emh else eh)"
    using layout_run [OF cs th sh_def H_def sw_def p0_def t emw_def emh_def ew_def eh_def fsw_def fph_def]
    by blast
  define M where "M = H - DEFAULT_MIN_EDITOR_PART_HEIGHT"
  have room': "panel_minHeight cs \<le> M" "DEFAULT_MIN_PANEL_PART_HEIGHT \<le> M"
    using room by (simp_all add: M_def H_def sh_def)
  have H147: "147 \<le> H"
    using room'(2) by (simp add: M_def constants_defs)
  have p0M: "p0 \<le> M"
    using room'(2) H147 by (simp add: p0_def M_def constants_defs)
  have phM: "ph \<le> M"
    using t p0M room'(1)
    by (auto simp: layout_toggle_def Let_def M_def split: if_splits option.splits)
  have emh70: "DEFAULT_MIN_EDITOR_PART_HEIGHT \<le> emh"
    by (simp add: emh_def layout_editorMinHeight_def emin constants_defs)
  have fphM: "fph \<le> M"
    using phM room'(2) emh70 by (simp add: fph_def eh_def M_def)
  have sh0: "0 \<le> sh"
    using status by (simp add: sh_def)
  have main: "DEFAULT_MIN_EDITOR_PART_HEIGHT \<le> (if eh < emh then emh else eh)"
    using emh70 by simp
  show ?thesis
    using r fphM top sh0 main
    by (intro exI [of _ w'] exI [of _ fph] exI [of _ "if eh < emh then emh else eh"])
       (simp add: M_def H_def)
qed

theorem layout_panel_height_bound_witness:
  "\<exists>w' bottom main.
     layout \<lparr>forceStyleRecompute = False, toggleMaximizedPanel = True\<rparr>
       (example_world\<lparr>lay := example_lay\<lparr>panelHeightBeforeMaximized := Some 150\<rparr>\<rparr>) = Inr w' \<and>
     box_height (panel (dom w')) = Some bottom \<and>
     box_height (editor (dom w')) = Some main \<and>
     70 \<le> main \<and>
     panelHeight (lay w') = bottom \<and>
     bottom \<le> 800 - titlebarHeight (lay w') - statusbarHeight (lay w') - 70 \<and>
     bottom \<le> 800 - 70"
  using layout_panel_height_bound
          [of "\<lparr>forceStyleRecompute = False, toggleMaximizedPanel = True\<rparr>"
              "example_world\<lparr>lay := example_lay\<lparr>panelHeightBeforeMaximized := Some 150\<rparr>\<rparr>"
              example_styles 22]
  by (simp add: example_defs layout_styles_def layout_titlebarHeight_def constants_defs)

subsection \<open>Laying out twice\<close>

text \<open>
  Claim C3. Two calls of \<open>layout\<close> in a row, with nothing in between, are to leave the
  same rectangles. On a workbench with no committed side bar width they do not. In
  \<open>fresh_world\<close> the container is 800 wide: the first call takes the default branch of
  line 351, gives the side bar a fifth of the width, 160, and commits it, without the
  clamp to the style's minimum that the committed branch of line 349 applies; the second
  call finds 160 committed and raises the side bar to the minimum 170.
\<close>

theorem layout_twice_fresh_differs:
  "after (box_width \<circ> sidebar \<circ> dom) (layout no_options fresh_world) = Some (Some 160) \<and>
   after (box_width \<circ> sidebar \<circ> dom) (then_layout no_options (layout no_options fresh_world))
     = Some (Some 170)"
  by (simp add: after_def then_layout_def fresh_world_def example_defs no_options_def run_defs)

subsection \<open>Maximizing the panel and restoring it\<close>

text \<open>
  Claim C5, as stated, fails in a small container. In \<open>small_maximized_world\<close> 100 are
  left between title bar and status bar, so the maximum panel height is 30, below the
  panel's minimum 77. A layout applies 30. The first toggle finds the panel at its maximum
  and restores the remembered height, raised to the minimum 77; the second one finds the
  committed 77 clamped to the maximum again and restores 77 once more.
\<close>

theorem layout_toggle_twice_counterexample:
  "after (box_height \<circ> panel \<circ> dom) (layout no_options small_maximized_world) = Some (Some 30) \<and>
   after (box_height \<circ> panel \<circ> dom)
     (then_layout toggle_options
        (then_layout toggle_options (layout no_options small_maximized_world)))
     = Some (Some 77)"
  by (simp add: after_def then_layout_def small_maximized_world_def example_defs no_options_def
        toggle_options_def run_defs)

text \<open>
  With two editors stacked above each other the editor's minimum height is 140: the
  overflow correction lowers the maximized panel from 686 to 616, the next toggle does
  not find the panel at its maximum and maximizes again.
\<close>

lemma layout_toggle_twice_stacked:
  "after (box_height \<circ> panel \<circ> dom) (layout no_options stacked_world) = Some (Some 200) \<and>
   after (box_height \<circ> panel \<circ> dom)
     (then_layout toggle_options (then_layout toggle_options (layout no_options stacked_world)))
     = Some (Some 616)"
  by (simp add: after_def then_layout_def stacked_world_def example_defs no_options_def
        toggle_options_def run_defs)

text \<open>One toggle, when the editor's minimum height is not scaled.\<close>

lemma layout_toggle_once:
  assumes cs: "computedStyles (lay (layout_styles toggle_options w)) = Some cs"
      and th: "layout_titlebarHeight (titleBarHidden (partService w)) (layout_styles toggle_options w) = Inr th"
      and vis: "\<not> panelHidden (partService w)"
      and M: "M = height (clientArea w) - (if statusBarHidden (partService w) then 0 else statusbar_height cs)
                   - th - DEFAULT_MIN_EDITOR_PART_HEIGHT"
      and pos: "0 < panel_minHeight cs"
      and lo: "panel_minHeight cs \<le> panelHeight (lay w)"
      and hi: "panelHeight (lay w) \<le> M"
      and emh: "layout_editorMinHeight cs (visibleEditors w) (layoutEditorGroupsVertically (lay w))
                \<le> DEFAULT_MIN_EDITOR_PART_HEIGHT"
      and tg: "layout_toggle toggle_options cs (panelHeight (lay w)) M (panelHeightBeforeMaximized (lay w))
               = Inr (ph, b)"
  obtains w' where "layout toggle_options w = Inr w'"
    and "box_height (panel (dom w')) = Some ph" "panelHeight (lay w') = ph"
    and "panelHeightBeforeMaximized (lay w') = b"
    and "computedStyles (lay (layout_styles toggle_options w')) = Some cs"
    and "layout_titlebarHeight (titleBarHidden (partService w')) (layout_styles toggle_options w') = Inr th"
    and "partService w' = partService w" "clientArea w' = clientArea w"
    and "visibleEditors w' = visibleEditors w"
    and "layoutEditorGroupsVertically (lay w') = layoutEditorGroupsVertically (lay w)"
proof -
  define sh where "sh = (if statusBarHidden (partService w) then 0 else statusbar_height cs)"
  define H where "H = height (clientArea w) - sh - th"
  define sw where "sw = (if sideBarHidden (partService w) then 0
                     else if sidebarWidth (lay w) \<noteq> - 1 then max (sidebar_minWidth cs) (sidebarWidth (lay w))
                     else width (clientArea w) / 5)"
  define p0 where "p0 = (if panelHidden (partService w) then 0
                     else if panelHeight (lay w) > 0
                       then min (H - DEFAULT_MIN_EDITOR_PART_HEIGHT) (max (panel_minHeight cs) (panelHeight (lay w)))
                     else H * DEFAULT_PANEL_HEIGHT_COEFFICIENT)"
  define emw where "emw = layout_editorMinWidth cs (visibleEditors w) (layoutEditorGroupsVertically (lay w))"
  define emh where "emh = layout_editorMinHeight cs (visibleEditors w) (layoutEditorGroupsVertically (lay w))"
  define ew where "ew = (if sideBarHidden (partService w) then width (clientArea w) - activitybar_width cs
                     else width (clientArea w) - sw - activitybar_width cs)"
  define eh where "eh = H - ph"
  define fsw where "fsw = (if ew < emw then max DEFAULT_MIN_SIDEBAR_PART_WIDTH (sw - (emw - ew)) else sw)"
  define fph where "fph = (if eh < emh then max DEFAULT_MIN_PANEL_PART_HEIGHT (ph - (emh - eh)) else ph)"
  have MH: "M = H - DEFAULT_MIN_EDITOR_PART_HEIGHT"
    by (simp add: M H_def sh_def)
  have c0: "0 < panelHeight (lay w)"
    using pos lo by simp
  have p0: "p0 = panelHeight (lay w)"
    using vis c0 lo hi by (simp add: p0_def MH [symmetric])
  have t: "layout_toggle toggle_options cs p0 (H - DEFAULT_MIN_EDITOR_PART_HEIGHT)
             (panelHeightBeforeMaximized (lay w)) = Inr (ph, b)"
    using tg by (simp add: p0 MH)
  obtain w' where r: "layout toggle_options w = Inr w'"
      "box_height (panel (dom w')) = Some fph"
      "panelHeight (lay w') = (if panelHidden (partService w) then panelHeight (lay w) else fph)"
      "panelHeightBeforeMaximized (lay w') = b"
      "computedStyles (lay w') = Some cs"
      "initialComputedStyles (lay w') = initialComputedStyles (lay (layout_styles toggle_options w))"
      "partService w' = partService w" "clientArea w' = clientArea w"
      "visibleEditors w' = visibleEditors w" "zoomFactor w' = zoomFactor w"
      "layoutEditorGroupsVertically (lay w') = layoutEditorGroupsVertically (lay w)"
    using layout_run [OF cs th sh_def H_def sw_def p0_def t emw_def emh_def ew_def eh_def fsw_def fph_def]
    by blast
  have phM: "ph \<le> M"
    using tg lo hi
    by (auto simp: layout_toggle_def toggle_options_def Let_def split: if_splits option.splits)
  have "\<not> eh < emh"
    using phM emh by (simp add: eh_def emh_def MH)
  then have fph: "fph = ph"
    by (simp add: fph_def)
  have ls: "layout_styles toggle_options w' = w'"
    by (rule layout_styles_idle [OF _ r(5)]) (simp add: toggle_options_def)
  have th': "layout_titlebarHeight (titleBarHidden (partService w')) w' = Inr th"
    using th layout_titlebarHeight_cong [of w' "layout_styles toggle_options w"]
    by (simp add: r layout_styles_frame)
  show ?thesis
    using r vis th' by (intro that [of w']) (simp_all add: fph ls)
qed

text \<open>
  Claim C5, amended. Let the panel be visible with a committed height between its
  (positive) minimum height and the maximum, the height between title bar and status bar
  less 70, as a layout leaves it; let the editor's minimum height be unscaled (at most
  one visible editor, or editors side by side); and let a height be remembered when the
  panel already is at the maximum. Then two calls of \<open>layout\<close> with the maximize toggle, one
  after the other, leave the panel at the height it had before the first.
\<close>

theorem layout_toggle_twice:
  assumes cs: "computedStyles (lay (layout_styles toggle_options w)) = Some cs"
      and th: "layout_titlebarHeight (titleBarHidden (partService w)) (layout_styles toggle_options w) = Inr th"
      and vis: "\<not> panelHidden (partService w)"
      and M: "M = height (clientArea w) - (if statusBarHidden (partService w) then 0 else statusbar_height cs)
                   - th - DEFAULT_MIN_EDITOR_PART_HEIGHT"
      and pos: "0 < panel_minHeight cs"
      and lo: "panel_minHeight cs \<le> panelHeight (lay w)"
      and hi: "panelHeight (lay w) \<le> M"
      and emin: "editor_minHeight cs = DEFAULT_MIN_EDITOR_PART_HEIGHT"
      and single: "visibleEditors w \<le> 1 \<or> layoutEditorGroupsVertically (lay w)"
      and remembered: "panelHeight (lay w) = M \<longrightarrow> panelHeightBeforeMaximized (lay w) \<noteq> None"
  shows "\<exists>w1 w2. layout toggle_options w = Inr w1 \<and> layout toggle_options w1 = Inr w2 \<and>
           box_height (panel (dom w2)) = Some (panelHeight (lay w)) \<and>
           panelHeight (lay w2) = panelHeight (lay w)"
proof -
  define c where "c = panelHeight (lay w)"
  have emh: "layout_editorMinHeight cs (visibleEditors w) (layoutEditorGroupsVertically (lay w))
                \<le> DEFAULT_MIN_EDITOR_PART_HEIGHT"
    using single by (auto simp: layout_editorMinHeight_def emin)
  have "\<exists>ph1 b1. layout_toggle toggle_options cs c M (panelHeightBeforeMaximized (lay w)) = Inr (ph1, b1)"
  proof (cases "c = M")
    case True
    with remembered obtain y where "panelHeightBeforeMaximized (lay w) = Some y"
      by (auto simp: c_def)
    then show ?thesis
      by (simp add: layout_toggle_def toggle_options_def Let_def)
  next
    case False
    then show ?thesis
      by (simp add: layout_toggle_def toggle_options_def Let_def)
  qed
  then obtain ph1 b1 where
    t1: "layout_toggle toggle_options cs c M (panelHeightBeforeMaximized (lay w)) = Inr (ph1, b1)"
    by blast
  have b1: "b1 = Some c"
    using t1 by (auto simp: layout_toggle_def toggle_options_def Let_def split: if_splits option.splits)
  have ph1: "panel_minHeight cs \<le> ph1" "ph1 \<le> M" "c \<noteq> M \<longrightarrow> ph1 = M"
    using t1 lo hi
    by (auto simp: layout_toggle_def toggle_options_def Let_def c_def split: if_splits option.splits)
  from layout_toggle_once [OF cs th vis M pos lo hi emh t1 [unfolded c_def]]
  obtain w1 where r: "layout toggle_options w = Inr w1"
      "panelHeight (lay w1) = ph1" "panelHeightBeforeMaximized (lay w1) = b1"
      "computedStyles (lay (layout_styles toggle_options w1)) = Some cs"
      "layout_titlebarHeight (titleBarHidden (partService w1)) (layout_styles toggle_options w1) = Inr th"
      "partService w1 = partService w" "clientArea w1 = clientArea w"
      "visibleEditors w1 = visibleEditors w"
      "layoutEditorGroupsVertically (lay w1) = layoutEditorGroupsVertically (lay w)"
    by blast
  have t2: "layout_toggle toggle_options cs (panelHeight (lay w1)) M (panelHeightBeforeMaximized (lay w1))
            = Inr (c, Some ph1)"
    using ph1 lo hi by (auto simp: layout_toggle_def toggle_options_def Let_def r b1 c_def)
  have vis1: "\<not> panelHidden (partService w1)"
    using vis by (simp add: r)
  have M1: "M = height (clientArea w1) - (if statusBarHidden (partService w1) then 0 else statusbar_height cs)
                   - th - DEFAULT_MIN_EDITOR_PART_HEIGHT"
    by (simp add: M r)
  have lo1: "panel_minHeight cs \<le> panelHeight (lay w1)" and hi1: "panelHeight (lay w1) \<le> M"
    using ph1 by (simp_all add: r)
  have emh1: "layout_editorMinHeight cs (visibleEditors w1) (layoutEditorGroupsVertically (lay w1))
                \<le> DEFAULT_MIN_EDITOR_PART_HEIGHT"
    using emh by (simp add: r)
  from layout_toggle_once [OF r(4) r(5) vis1 M1 pos lo1 hi1 emh1 t2]
  obtain w2 where q: "layout toggle_options w1 = Inr w2"
      "box_height (panel (dom w2)) = Some c" "panelHeight (lay w2) = c"
    by blast
  show ?thesis
    using r(1) q by (auto simp: c_def)
qed

theorem layout_toggle_twice_witness:
  "\<exists>w1 w2. layout toggle_options example_world = Inr w1 \<and> layout toggle_options w1 = Inr w2 \<and>
     box_height (panel (dom w2)) = Some 200 \<and> panelHeight (lay w2) = 200"
  using layout_toggle_twice [of example_world example_styles 22 686]
  by (simp add: example_defs toggle_options_def layout_styles_def layout_titlebarHeight_def
        constants_defs)

end
